theory Spec2Isabelle
  imports Main
begin

section \<open>The on-chain escrow contracts (packages/contracts/evm/contracts)\<close>

text \<open>
  Solidity values: \<open>uint256\<close>, \<open>bytes32\<close> and \<open>address\<close> are natural numbers below
  their bound; the one addition the contracts perform (\<open>block.timestamp + MIN_TIMELOCK\<close>)
  is checked, as Solidity 0.8 checks it, and reverts with a panic on overflow.
  A transaction either reverts (\<open>Inl\<close>, storage unchanged) or returns the new storage.
\<close>

type_synonym address = nat
type_synonym bytes32 = nat
type_synonym uint256 = nat

definition checked_add :: "uint256 \<Rightarrow> uint256 \<Rightarrow> uint256 option" where
  "checked_add a b = (if a + b < 2 ^ 256 then Some (a + b) else None)"

datatype revert =
    Require_failed string
  | Panic_overflow
  | Reentrant_call
  | Token_transfer_failed

record txctx =
  block_timestamp :: uint256
  msg_sender :: address

text \<open>
  The ERC20 tokens are external contracts. Each call the escrow code makes to one is
  answered by an oracle: \<open>True\<close> when the call returns, \<open>False\<close> when it reverts
  (and \<open>SafeERC20\<close> reverts the caller with it).
\<close>

datatype token_call =
    SafeTransfer address address uint256
  | SafeTransferFrom address address uint256

type_synonym token_oracle = "token_call \<Rightarrow> bool"

datatype State = PENDING | WITHDRAWN | CANCELLED

subsection \<open>HTLCSource.sol\<close>

record HTLCSource =
  orderHash_src :: bytes32
  maker_src :: address
  makerAsset_src :: address
  makingAmount_src :: uint256
  takerAsset_src :: address
  takingAmount_src :: uint256
  hashLock_src :: bytes32
  timelock_src :: uint256
  dstChainId_src :: uint256
  state_src :: State
  withdrawnBy_src :: address
  preimage_src :: bytes32
  entered_src :: bool

definition HTLCSource_constructor ::
  "bytes32 \<Rightarrow> address \<Rightarrow> address \<Rightarrow> uint256 \<Rightarrow> address \<Rightarrow> uint256 \<Rightarrow> bytes32 \<Rightarrow> uint256 \<Rightarrow> uint256
    \<Rightarrow> HTLCSource" where
  "HTLCSource_constructor orderHash maker makerAsset makingAmount takerAsset takingAmount
      hashLock timelock dstChainId =
     \<lparr>orderHash_src = orderHash, maker_src = maker, makerAsset_src = makerAsset,
      makingAmount_src = makingAmount, takerAsset_src = takerAsset,
      takingAmount_src = takingAmount, hashLock_src = hashLock, timelock_src = timelock,
      dstChainId_src = dstChainId, state_src = PENDING, withdrawnBy_src = 0,
      preimage_src = 0, entered_src = False\<rparr>"

text \<open>
  \<open>withdraw(bytes32 preimage) external nonReentrant onlyBeforeTimelock onlyPending\<close>:
  the modifiers run in that order, then the body. \<open>keccak\<close> stands for
  \<open>keccak256(abi.encodePacked(.))\<close> on a \<open>bytes32\<close>.
\<close>

definition HTLCSource_withdraw ::
  "(bytes32 \<Rightarrow> bytes32) \<Rightarrow> token_oracle \<Rightarrow> txctx \<Rightarrow> bytes32 \<Rightarrow> HTLCSource
    \<Rightarrow> revert + HTLCSource" where
  "HTLCSource_withdraw keccak tok tx preimage c =
     (if entered_src c then Inl Reentrant_call
      else if \<not> block_timestamp tx < timelock_src c
        then Inl (Require_failed ''Timelock has passed'')
      else if state_src c \<noteq> PENDING
        then Inl (Require_failed ''Contract not in pending state'')
      else if keccak preimage \<noteq> hashLock_src c
        then Inl (Require_failed ''Invalid preimage'')
      else if \<not> tok (SafeTransfer (makerAsset_src c) (msg_sender tx) (makingAmount_src c))
        then Inl Token_transfer_failed
      else Inr (c\<lparr>state_src := WITHDRAWN, withdrawnBy_src := msg_sender tx,
                  preimage_src := preimage\<rparr>))"

text \<open>\<open>cancel() external nonReentrant onlyAfterTimelock onlyPending\<close>.\<close>

definition HTLCSource_cancel :: "token_oracle \<Rightarrow> txctx \<Rightarrow> HTLCSource \<Rightarrow> revert + HTLCSource" where
  "HTLCSource_cancel tok tx c =
     (if entered_src c then Inl Reentrant_call
      else if \<not> block_timestamp tx \<ge> timelock_src c
        then Inl (Require_failed ''Timelock not yet passed'')
      else if state_src c \<noteq> PENDING
        then Inl (Require_failed ''Contract not in pending state'')
      else if \<not> tok (SafeTransfer (makerAsset_src c) (maker_src c) (makingAmount_src c))
        then Inl Token_transfer_failed
      else Inr (c\<lparr>state_src := CANCELLED\<rparr>))"

definition HTLCSource_canWithdraw ::
  "(bytes32 \<Rightarrow> bytes32) \<Rightarrow> txctx \<Rightarrow> bytes32 \<Rightarrow> HTLCSource \<Rightarrow> bool" where
  "HTLCSource_canWithdraw keccak tx preimage c =
     (state_src c = PENDING \<and> block_timestamp tx < timelock_src c
      \<and> keccak preimage = hashLock_src c)"

definition HTLCSource_canCancel :: "txctx \<Rightarrow> HTLCSource \<Rightarrow> bool" where
  "HTLCSource_canCancel tx c = (state_src c = PENDING \<and> block_timestamp tx \<ge> timelock_src c)"

subsection \<open>HTLCDestination.sol\<close>

record HTLCDestination =
  orderHash_dst :: bytes32
  taker_dst :: address
  makerAsset_dst :: address
  makingAmount_dst :: uint256
  takerAsset_dst :: address
  takingAmount_dst :: uint256
  hashLock_dst :: bytes32
  timelock_dst :: uint256
  srcChainId_dst :: uint256
  state_dst :: State
  withdrawnBy_dst :: address
  preimage_dst :: bytes32
  entered_dst :: bool

definition HTLCDestination_constructor ::
  "bytes32 \<Rightarrow> address \<Rightarrow> address \<Rightarrow> uint256 \<Rightarrow> address \<Rightarrow> uint256 \<Rightarrow> bytes32 \<Rightarrow> uint256 \<Rightarrow> uint256
    \<Rightarrow> HTLCDestination" where
  "HTLCDestination_constructor orderHash taker makerAsset makingAmount takerAsset takingAmount
      hashLock timelock srcChainId =
     \<lparr>orderHash_dst = orderHash, taker_dst = taker, makerAsset_dst = makerAsset,
      makingAmount_dst = makingAmount, takerAsset_dst = takerAsset,
      takingAmount_dst = takingAmount, hashLock_dst = hashLock, timelock_dst = timelock,
      srcChainId_dst = srcChainId, state_dst = PENDING, withdrawnBy_dst = 0,
      preimage_dst = 0, entered_dst = False\<rparr>"

definition HTLCDestination_withdraw ::
  "(bytes32 \<Rightarrow> bytes32) \<Rightarrow> token_oracle \<Rightarrow> txctx \<Rightarrow> bytes32 \<Rightarrow> HTLCDestination
    \<Rightarrow> revert + HTLCDestination" where
  "HTLCDestination_withdraw keccak tok tx preimage c =
     (if entered_dst c then Inl Reentrant_call
      else if \<not> block_timestamp tx < timelock_dst c
        then Inl (Require_failed ''Timelock has passed'')
      else if state_dst c \<noteq> PENDING
        then Inl (Require_failed ''Contract not in pending state'')
      else if keccak preimage \<noteq> hashLock_dst c
        then Inl (Require_failed ''Invalid preimage'')
      else if \<not> tok (SafeTransfer (takerAsset_dst c) (msg_sender tx) (takingAmount_dst c))
        then Inl Token_transfer_failed
      else Inr (c\<lparr>state_dst := WITHDRAWN, withdrawnBy_dst := msg_sender tx,
                  preimage_dst := preimage\<rparr>))"

definition HTLCDestination_cancel ::
  "token_oracle \<Rightarrow> txctx \<Rightarrow> HTLCDestination \<Rightarrow> revert + HTLCDestination" where
  "HTLCDestination_cancel tok tx c =
     (if entered_dst c then Inl Reentrant_call
      else if \<not> block_timestamp tx \<ge> timelock_dst c
        then Inl (Require_failed ''Timelock not yet passed'')
      else if state_dst c \<noteq> PENDING
        then Inl (Require_failed ''Contract not in pending state'')
      else if \<not> tok (SafeTransfer (takerAsset_dst c) (taker_dst c) (takingAmount_dst c))
        then Inl Token_transfer_failed
      else Inr (c\<lparr>state_dst := CANCELLED\<rparr>))"

subsection \<open>A history of transactions against one escrow\<close>

text \<open>
  Transactions run one at a time. A reverted transaction leaves the storage as it was;
  the run returns the final storage and, per transaction, whether it succeeded.
\<close>

datatype htlc_call = Withdraw_call bytes32 | Cancel_call

fun HTLCSource_call ::
  "(bytes32 \<Rightarrow> bytes32) \<Rightarrow> token_oracle \<Rightarrow> txctx \<Rightarrow> htlc_call \<Rightarrow> HTLCSource
    \<Rightarrow> revert + HTLCSource" where
  "HTLCSource_call keccak tok tx (Withdraw_call p) c = HTLCSource_withdraw keccak tok tx p c"
| "HTLCSource_call keccak tok tx Cancel_call c = HTLCSource_cancel tok tx c"

fun HTLCSource_run ::
  "(bytes32 \<Rightarrow> bytes32) \<Rightarrow> (token_oracle \<times> txctx \<times> htlc_call) list \<Rightarrow> HTLCSource
    \<Rightarrow> HTLCSource \<times> bool list" where
  "HTLCSource_run keccak [] c = (c, [])"
| "HTLCSource_run keccak ((tok, tx, call) # rest) c =
     (case HTLCSource_call keccak tok tx call c of
        Inl _ \<Rightarrow> (let (c', oks) = HTLCSource_run keccak rest c in (c', False # oks))
      | Inr c1 \<Rightarrow> (let (c', oks) = HTLCSource_run keccak rest c1 in (c', True # oks)))"

fun HTLCDestination_call ::
  "(bytes32 \<Rightarrow> bytes32) \<Rightarrow> token_oracle \<Rightarrow> txctx \<Rightarrow> htlc_call \<Rightarrow> HTLCDestination
    \<Rightarrow> revert + HTLCDestination" where
  "HTLCDestination_call keccak tok tx (Withdraw_call p) c = HTLCDestination_withdraw keccak tok tx p c"
| "HTLCDestination_call keccak tok tx Cancel_call c = HTLCDestination_cancel tok tx c"

fun HTLCDestination_run ::
  "(bytes32 \<Rightarrow> bytes32) \<Rightarrow> (token_oracle \<times> txctx \<times> htlc_call) list \<Rightarrow> HTLCDestination
    \<Rightarrow> HTLCDestination \<times> bool list" where
  "HTLCDestination_run keccak [] c = (c, [])"
| "HTLCDestination_run keccak ((tok, tx, call) # rest) c =
     (case HTLCDestination_call keccak tok tx call c of
        Inl _ \<Rightarrow> (let (c', oks) = HTLCDestination_run keccak rest c in (c', False # oks))
      | Inr c1 \<Rightarrow> (let (c', oks) = HTLCDestination_run keccak rest c1 in (c', True # oks)))"

subsection \<open>HTLCFactory.sol\<close>

definition MIN_TIMELOCK :: uint256 where
  "MIN_TIMELOCK = 3600"

definition MAX_TIMELOCK :: uint256 where
  "MAX_TIMELOCK = 604800"

record HTLCFactory =
  sourceHTLCs :: "bytes32 \<Rightarrow> address"
  destinationHTLCs :: "bytes32 \<Rightarrow> address"
  entered_factory :: bool

text \<open>
  \<open>created\<close> is the address the EVM gives the contract made by \<open>new\<close>. The result
  is the returned address, the storage of the new escrow and the factory's new storage.
\<close>

definition deploySourceHTLC ::
  "token_oracle \<Rightarrow> txctx \<Rightarrow> address \<Rightarrow>
   bytes32 \<Rightarrow> address \<Rightarrow> address \<Rightarrow> uint256 \<Rightarrow> address \<Rightarrow> uint256 \<Rightarrow> bytes32 \<Rightarrow> uint256 \<Rightarrow> uint256
    \<Rightarrow> HTLCFactory \<Rightarrow> revert + (address \<times> HTLCSource \<times> HTLCFactory)" where
  "deploySourceHTLC tok tx created orderHash maker makerAsset makingAmount takerAsset
      takingAmount hashLock timelock dstChainId f =
     (if entered_factory f then Inl Reentrant_call
      else if sourceHTLCs f orderHash \<noteq> 0 then Inl (Require_failed ''HTLC already exists'')
      else case checked_add (block_timestamp tx) MIN_TIMELOCK of
        None \<Rightarrow> Inl Panic_overflow
      | Some lo \<Rightarrow>
          if \<not> timelock \<ge> lo then Inl (Require_failed ''Timelock too short'')
          else (case checked_add (block_timestamp tx) MAX_TIMELOCK of
            None \<Rightarrow> Inl Panic_overflow
          | Some hi \<Rightarrow>
              if \<not> timelock \<le> hi then Inl (Require_failed ''Timelock too long'')
              else if \<not> makingAmount > 0
                then Inl (Require_failed ''Amount must be greater than 0'')
              else if \<not> tok (SafeTransferFrom makerAsset maker makingAmount)
                then Inl Token_transfer_failed
              else if \<not> tok (SafeTransfer makerAsset created makingAmount)
                then Inl Token_transfer_failed
              else Inr (created,
                        HTLCSource_constructor orderHash maker makerAsset makingAmount
                          takerAsset takingAmount hashLock timelock dstChainId,
                        f\<lparr>sourceHTLCs := (sourceHTLCs f)(orderHash := created)\<rparr>)))"

definition deployDestinationHTLC ::
  "token_oracle \<Rightarrow> txctx \<Rightarrow> address \<Rightarrow>
   bytes32 \<Rightarrow> address \<Rightarrow> address \<Rightarrow> uint256 \<Rightarrow> address \<Rightarrow> uint256 \<Rightarrow> bytes32 \<Rightarrow> uint256 \<Rightarrow> uint256
    \<Rightarrow> HTLCFactory \<Rightarrow> revert + (address \<times> HTLCDestination \<times> HTLCFactory)" where
  "deployDestinationHTLC tok tx created orderHash taker makerAsset makingAmount takerAsset
      takingAmount hashLock timelock srcChainId f =
     (if entered_factory f then Inl Reentrant_call
      else if destinationHTLCs f orderHash \<noteq> 0 then Inl (Require_failed ''HTLC already exists'')
      else case checked_add (block_timestamp tx) MIN_TIMELOCK of
        None \<Rightarrow> Inl Panic_overflow
      | Some lo \<Rightarrow>
          if \<not> timelock \<ge> lo then Inl (Require_failed ''Timelock too short'')
          else (case checked_add (block_timestamp tx) MAX_TIMELOCK of
            None \<Rightarrow> Inl Panic_overflow
          | Some hi \<Rightarrow>
              if \<not> timelock \<le> hi then Inl (Require_failed ''Timelock too long'')
              else if \<not> takingAmount > 0
                then Inl (Require_failed ''Amount must be greater than 0'')
              else if \<not> tok (SafeTransferFrom takerAsset taker takingAmount)
                then Inl Token_transfer_failed
              else if \<not> tok (SafeTransfer takerAsset created takingAmount)
                then Inl Token_transfer_failed
              else Inr (created,
                        HTLCDestination_constructor orderHash taker makerAsset makingAmount
                          takerAsset takingAmount hashLock timelock srcChainId,
                        f\<lparr>destinationHTLCs := (destinationHTLCs f)(orderHash := created)\<rparr>)))"

definition getSourceHTLC :: "HTLCFactory \<Rightarrow> bytes32 \<Rightarrow> address" where
  "getSourceHTLC f orderHash = sourceHTLCs f orderHash"

definition getDestinationHTLC :: "HTLCFactory \<Rightarrow> bytes32 \<Rightarrow> address" where
  "getDestinationHTLC f orderHash = destinationHTLCs f orderHash"

section \<open>The resolver service (packages/resolver/src/htlc-resolver.ts)\<close>

text \<open>
  The class \<open>HTLCResolver\<close> with the deployment logic: the second module of the
  file, from its second \<open>import\<close> on (the first is the same class with simulated
  chains). JavaScript strings are \<open>string\<close>, the numbers it handles (chain ids, unix
  times) are integers, an optional field is an \<open>option\<close>. A method takes the object and
  returns its result together with the object as the call leaves it: an exception
  (\<open>Inl\<close>) does not undo what was written before it was thrown. The methods are
  \<open>async\<close>; the model runs each call to its end before the next one starts.
\<close>

datatype status = pending | executed | completed | cancelled

text \<open>
  The argument of \<open>createSwapOrder\<close> has the eight fields that \<open>SwapOrder\<close> copies
  from it; the order extends it with the fields the resolver computes.
\<close>

record SwapParams =
  maker :: string
  srcChainId :: int
  dstChainId :: int
  srcToken :: string
  dstToken :: string
  srcAmount :: string
  dstAmount :: string
  timelock :: int

record SwapOrder = SwapParams +
  orderHash :: string
  secret :: string
  hashLock :: string
  status :: status
  createdAt :: int
  srcHTLCAddress :: "string option"
  dstHTLCAddress :: "string option"
  srcTxHash :: "string option"
  dstTxHash :: "string option"

record ChainConfig =
  chainId :: int
  rpcUrl :: string
  htlcFactory :: string
  name :: string

record process_env =
  SEPOLIA_RPC_URL :: "string option"
  SEPOLIA_HTLC_FACTORY :: "string option"
  POLYGON_AMOY_RPC_URL :: "string option"
  POLYGON_AMOY_HTLC_FACTORY :: "string option"
  RESOLVER_PRIVATE_KEY :: "string option"
  MAKER_PRIVATE_KEY :: "string option"
  TAKER_PRIVATE_KEY :: "string option"

record HTLCResolver =
  orders :: "string \<rightharpoonup> SwapOrder"
  providers :: "int set"
  resolverWallet :: "int set"
  chains :: "ChainConfig list"
  env :: process_env

text \<open>
  Every \<open>throw new Error(message)\<close> of the module, by its message. The \<open>catch\<close>
  blocks of \<open>createSwapOrder\<close>, \<open>withdraw\<close> and \<open>cancel\<close> wrap the error they caught;
  the one of \<open>executeSwap\<close> rethrows it as it is.
\<close>

datatype error =
    Order_not_found
  | Order_status_cannot_execute status
  | Invalid_secret
  | Cannot_cancel_before_timelock
  | No_provider_wallet int
  | No_factory_address int
  | No_private_key
  | No_HTLC_address int
  | Library_error
  | Chain_error
  | Failed_to_create error
  | Failed_to_withdraw error
  | Failed_to_cancel error

text \<open>
  The \<open>ethers\<close> library is not part of the repository; its functions are parameters.
  Each returns \<open>None\<close> where the library throws: \<open>keccak256\<close> on a string that is not
  hex data, \<open>getAddress\<close> on a string that is not an address or whose mixed-case
  checksum is wrong, the ABI coder on a value outside its type.
\<close>

record ethers =
  keccak256 :: "string \<Rightarrow> string option"
  getAddress :: "string \<Rightarrow> string option"
  abiEncode ::
    "string \<times> int \<times> int \<times> string \<times> string \<times> string \<times> string \<times> string \<times> int \<Rightarrow> string option"

text \<open>
  What the two blockchains answer. A transaction function gives the hash of the
  receipt, or \<open>None\<close> when sending it, or waiting for it, throws (a revert, an RPC
  failure). The first argument is the chain id of the provider used. Then:
  \<open>wallet_address\<close> takes a private key (\<open>new ethers.Wallet\<close>); \<open>tx_approve\<close> the
  signer's key, the token, the spender and the amount; the deployments the factory, the
  signer's key, (for the destination) the taker's address, the order hash and the order
  whose fields are passed; the two reads the factory and the order hash;
  \<open>tx_withdraw\<close> the escrow's address and the secret; \<open>tx_cancel\<close> the escrow's
  address.
\<close>

record chain_io =
  wallet_address :: "string \<Rightarrow> string option"
  tx_approve :: "int \<Rightarrow> string \<Rightarrow> string \<Rightarrow> string \<Rightarrow> string \<Rightarrow> bool"
  tx_deploySourceHTLC :: "int \<Rightarrow> string \<Rightarrow> string \<Rightarrow> string \<Rightarrow> SwapOrder \<Rightarrow> string option"
  call_getSourceHTLC :: "int \<Rightarrow> string \<Rightarrow> string \<Rightarrow> string option"
  tx_deployDestinationHTLC ::
    "int \<Rightarrow> string \<Rightarrow> string \<Rightarrow> string \<Rightarrow> string \<Rightarrow> SwapOrder \<Rightarrow> string option"
  call_getDestinationHTLC :: "int \<Rightarrow> string \<Rightarrow> string \<Rightarrow> string option"
  tx_withdraw :: "int \<Rightarrow> string \<Rightarrow> string \<Rightarrow> string option"
  tx_cancel :: "int \<Rightarrow> string \<Rightarrow> string option"

subsection \<open>Construction\<close>

text \<open>\<open>a || b\<close> on optional strings: the empty string and \<open>undefined\<close> are falsy.\<close>

fun truthy :: "string option \<Rightarrow> bool" where
  "truthy None = False"
| "truthy (Some v) = (v \<noteq> [])"

definition js_or :: "string option \<Rightarrow> string option \<Rightarrow> string option" where
  "js_or a b = (if truthy a then a else b)"

definition or_default :: "string option \<Rightarrow> string \<Rightarrow> string" where
  "or_default a d = (case a of None \<Rightarrow> d | Some v \<Rightarrow> if v = [] then d else v)"

definition chains_of :: "process_env \<Rightarrow> ChainConfig list" where
  "chains_of ev =
     [\<lparr>chainId = 11155111,
       rpcUrl = or_default (SEPOLIA_RPC_URL ev) ''https://ethereum-sepolia.publicnode.com'',
       htlcFactory = or_default (SEPOLIA_HTLC_FACTORY ev)
          ''0xb89F0578D3C1Ddf9aEa843840445E05F1e9E242A'',
       name = ''Sepolia''\<rparr>,
      \<lparr>chainId = 80002,
       rpcUrl = or_default (POLYGON_AMOY_RPC_URL ev) ''https://rpc-amoy.polygon.technology'',
       htlcFactory = or_default (POLYGON_AMOY_HTLC_FACTORY ev)
          ''0xb89F0578D3C1Ddf9aEa843840445E05F1e9E242A'',
       name = ''Polygon Amoy''\<rparr>]"

text \<open>
  \<open>initializeProviders\<close>: without \<open>RESOLVER_PRIVATE_KEY\<close> nothing is set up; otherwise
  each chain whose provider and wallet can be made (\<open>connect\<close>) gets both.
\<close>

definition initializeProviders :: "(ChainConfig \<Rightarrow> bool) \<Rightarrow> HTLCResolver \<Rightarrow> HTLCResolver" where
  "initializeProviders connect s =
     (if \<not> truthy (RESOLVER_PRIVATE_KEY (env s)) then s
      else fold (\<lambda>chain s'.
                  if connect chain
                  then s'\<lparr>providers := insert (chainId chain) (providers s'),
                          resolverWallet := insert (chainId chain) (resolverWallet s')\<rparr>
                  else s')
             (chains s) s)"

definition constructor :: "process_env \<Rightarrow> (ChainConfig \<Rightarrow> bool) \<Rightarrow> HTLCResolver" where
  "constructor ev connect =
     initializeProviders connect
       \<lparr>orders = Map.empty, providers = {}, resolverWallet = {}, chains = chains_of ev,
        env = ev\<rparr>"

subsection \<open>createSwapOrder\<close>

text \<open>
  \<open>rnd\<close> is \<open>randomBytes(32).toString('hex')\<close> and \<open>now_ms\<close> is \<open>Date.now()\<close>. The
  whole body stands in one \<open>try\<close>: whatever the library throws becomes
  \<open>Failed to create swap order\<close>, and the map is written last.
\<close>

definition createSwapOrder ::
  "ethers \<Rightarrow> string \<Rightarrow> int \<Rightarrow> SwapParams \<Rightarrow> HTLCResolver \<Rightarrow> (error + SwapOrder) \<times> HTLCResolver" where
  "createSwapOrder e rnd now_ms params s =
     (let secret' = ''0x'' @ rnd in
      case keccak256 e secret' of
        None \<Rightarrow> (Inl (Failed_to_create Library_error), s)
      | Some hashLock' \<Rightarrow>
     (case getAddress e (maker params) of
        None \<Rightarrow> (Inl (Failed_to_create Library_error), s)
      | Some maker' \<Rightarrow>
     (case getAddress e (srcToken params) of
        None \<Rightarrow> (Inl (Failed_to_create Library_error), s)
      | Some srcToken' \<Rightarrow>
     (case getAddress e (dstToken params) of
        None \<Rightarrow> (Inl (Failed_to_create Library_error), s)
      | Some dstToken' \<Rightarrow>
     (case abiEncode e (maker', srcChainId params, dstChainId params, srcToken', dstToken',
                        srcAmount params, dstAmount params, hashLock', timelock params) of
        None \<Rightarrow> (Inl (Failed_to_create Library_error), s)
      | Some orderData \<Rightarrow>
     (case keccak256 e orderData of
        None \<Rightarrow> (Inl (Failed_to_create Library_error), s)
      | Some orderHash' \<Rightarrow>
          (let order =
             \<lparr>maker = maker params, srcChainId = srcChainId params,
              dstChainId = dstChainId params, srcToken = srcToken params,
              dstToken = dstToken params, srcAmount = srcAmount params,
              dstAmount = dstAmount params, timelock = timelock params,
              orderHash = orderHash', secret = secret', hashLock = hashLock',
              status = pending, createdAt = now_ms div 1000,
              srcHTLCAddress = None, dstHTLCAddress = None, srcTxHash = None,
              dstTxHash = None\<rparr>
           in (Inr order, s\<lparr>orders := (orders s)(orderHash' \<mapsto> order)\<rparr>))))))))"

subsection \<open>executeSwap\<close>

definition find_factory :: "ChainConfig list \<Rightarrow> int \<Rightarrow> string option" where
  "find_factory cs cid =
     (case find (\<lambda>c. chainId c = cid) cs of
        None \<Rightarrow> None
      | Some c \<Rightarrow> if htlcFactory c = [] then None else Some (htlcFactory c))"

text \<open>
  Step 1 of \<open>executeSwap\<close>, up to the address read back from the factory: the result is
  the receipt's hash and the address of the source escrow.
\<close>

definition deploy_source_leg ::
  "chain_io \<Rightarrow> HTLCResolver \<Rightarrow> string \<Rightarrow> SwapOrder \<Rightarrow> error + (string \<times> string)" where
  "deploy_source_leg io s orderHash' order =
     (if \<not> (srcChainId order \<in> providers s \<and> srcChainId order \<in> resolverWallet s)
        then Inl (No_provider_wallet (srcChainId order))
      else case find_factory (chains s) (srcChainId order) of
        None \<Rightarrow> Inl (No_factory_address (srcChainId order))
      | Some factory \<Rightarrow>
     (case js_or (MAKER_PRIVATE_KEY (env s)) (RESOLVER_PRIVATE_KEY (env s)) of
        None \<Rightarrow> Inl No_private_key
      | Some makerPrivateKey \<Rightarrow>
          if makerPrivateKey = [] then Inl No_private_key
          else
     (case wallet_address io makerPrivateKey of
        None \<Rightarrow> Inl Library_error
      | Some makerWallet \<Rightarrow>
          if \<not> tx_approve io (srcChainId order) makerPrivateKey (srcToken order) factory
                 (srcAmount order)
            then Inl Chain_error
          else
     (case tx_deploySourceHTLC io (srcChainId order) factory makerPrivateKey orderHash' order of
        None \<Rightarrow> Inl Chain_error
      | Some srcReceipt \<Rightarrow>
     (case call_getSourceHTLC io (srcChainId order) factory orderHash' of
        None \<Rightarrow> Inl Chain_error
      | Some srcHTLCAddress' \<Rightarrow> Inr (srcReceipt, srcHTLCAddress'))))))"

text \<open>Step 2, the destination escrow, deployed by the taker's wallet.\<close>

definition deploy_destination_leg ::
  "chain_io \<Rightarrow> HTLCResolver \<Rightarrow> string \<Rightarrow> SwapOrder \<Rightarrow> error + (string \<times> string)" where
  "deploy_destination_leg io s orderHash' order =
     (if \<not> (dstChainId order \<in> providers s \<and> dstChainId order \<in> resolverWallet s)
        then Inl (No_provider_wallet (dstChainId order))
      else case find_factory (chains s) (dstChainId order) of
        None \<Rightarrow> Inl (No_factory_address (dstChainId order))
      | Some factory \<Rightarrow>
     (case js_or (TAKER_PRIVATE_KEY (env s)) (RESOLVER_PRIVATE_KEY (env s)) of
        None \<Rightarrow> Inl No_private_key
      | Some takerPrivateKey \<Rightarrow>
          if takerPrivateKey = [] then Inl No_private_key
          else
     (case wallet_address io takerPrivateKey of
        None \<Rightarrow> Inl Library_error
      | Some takerWallet \<Rightarrow>
          if \<not> tx_approve io (dstChainId order) takerPrivateKey (dstToken order) factory
                 (dstAmount order)
            then Inl Chain_error
          else
     (case tx_deployDestinationHTLC io (dstChainId order) factory takerPrivateKey takerWallet
             orderHash' order of
        None \<Rightarrow> Inl Chain_error
      | Some dstReceipt \<Rightarrow>
     (case call_getDestinationHTLC io (dstChainId order) factory orderHash' of
        None \<Rightarrow> Inl Chain_error
      | Some dstHTLCAddress' \<Rightarrow> Inr (dstReceipt, dstHTLCAddress'))))))"

text \<open>
  The order is written once, after both legs: the result is the pair of receipt hashes
  (\<open>srcTxHash\<close>, \<open>dstTxHash\<close>) of the returned object.
\<close>

definition executeSwap ::
  "chain_io \<Rightarrow> string \<Rightarrow> string \<Rightarrow> HTLCResolver \<Rightarrow> (error + (string \<times> string)) \<times> HTLCResolver" where
  "executeSwap io orderHash' makerSignature s =
     (case orders s orderHash' of
        None \<Rightarrow> (Inl Order_not_found, s)
      | Some order \<Rightarrow>
          if status order \<noteq> pending then (Inl (Order_status_cannot_execute (status order)), s)
          else
     (case deploy_source_leg io s orderHash' order of
        Inl err \<Rightarrow> (Inl err, s)
      | Inr (srcReceipt, srcHTLCAddress') \<Rightarrow>
     (case deploy_destination_leg io s orderHash' order of
        Inl err \<Rightarrow> (Inl err, s)
      | Inr (dstReceipt, dstHTLCAddress') \<Rightarrow>
          (Inr (srcReceipt, dstReceipt),
           s\<lparr>orders := (orders s)(orderHash' \<mapsto>
                order\<lparr>status := executed, srcTxHash := Some srcReceipt,
                      dstTxHash := Some dstReceipt, srcHTLCAddress := Some srcHTLCAddress',
                      dstHTLCAddress := Some dstHTLCAddress'\<rparr>)\<rparr>))))"

definition getSwapStatus :: "HTLCResolver \<Rightarrow> string \<Rightarrow> SwapOrder option" where
  "getSwapStatus s orderHash' = orders s orderHash'"

subsection \<open>withdraw and cancel\<close>

text \<open>
  The escrow the call goes to:
  \<open>chainId === order.srcChainId ? order.srcHTLCAddress : order.dstHTLCAddress\<close>,
  refused when falsy (absent or empty).
\<close>

definition withdraw ::
  "ethers \<Rightarrow> chain_io \<Rightarrow> string \<Rightarrow> string \<Rightarrow> int \<Rightarrow> HTLCResolver \<Rightarrow> (error + string) \<times> HTLCResolver" where
  "withdraw e io orderHash' secret' chainId' s =
     (case orders s orderHash' of
        None \<Rightarrow> (Inl Order_not_found, s)
      | Some order \<Rightarrow>
     (case keccak256 e secret' of
        None \<Rightarrow> (Inl Library_error, s)
      | Some h \<Rightarrow>
          if h \<noteq> hashLock order then (Inl Invalid_secret, s)
          else if \<not> (chainId' \<in> providers s \<and> chainId' \<in> resolverWallet s)
            then (Inl (Failed_to_withdraw (No_provider_wallet chainId')), s)
          else
            let htlcAddress = (if chainId' = srcChainId order then srcHTLCAddress order
                               else dstHTLCAddress order)
            in if \<not> truthy htlcAddress
               then (Inl (Failed_to_withdraw (No_HTLC_address chainId')), s)
               else (case tx_withdraw io chainId' (the htlcAddress) secret' of
                       None \<Rightarrow> (Inl (Failed_to_withdraw Chain_error), s)
                     | Some withdrawReceipt \<Rightarrow> (Inr withdrawReceipt, s))))"

text \<open>
  \<open>Date.now() / 1000 < order.timelock\<close> with \<open>Date.now()\<close> in milliseconds: on integers,
  \<open>now_ms < 1000 * timelock\<close>.
\<close>

definition cancel ::
  "chain_io \<Rightarrow> int \<Rightarrow> string \<Rightarrow> int \<Rightarrow> HTLCResolver \<Rightarrow> (error + string) \<times> HTLCResolver" where
  "cancel io now_ms orderHash' chainId' s =
     (case orders s orderHash' of
        None \<Rightarrow> (Inl Order_not_found, s)
      | Some order \<Rightarrow>
          if now_ms < 1000 * timelock order then (Inl Cannot_cancel_before_timelock, s)
          else if \<not> (chainId' \<in> providers s \<and> chainId' \<in> resolverWallet s)
            then (Inl (Failed_to_cancel (No_provider_wallet chainId')), s)
          else
            let htlcAddress = (if chainId' = srcChainId order then srcHTLCAddress order
                               else dstHTLCAddress order)
            in if \<not> truthy htlcAddress
               then (Inl (Failed_to_cancel (No_HTLC_address chainId')), s)
               else (case tx_cancel io chainId' (the htlcAddress) of
                       None \<Rightarrow> (Inl (Failed_to_cancel Chain_error), s)
                     | Some cancelReceipt \<Rightarrow>
                         (Inr cancelReceipt,
                          s\<lparr>orders := (orders s)(orderHash' \<mapsto> order\<lparr>status := cancelled\<rparr>)\<rparr>)))"

subsection \<open>Histories of calls\<close>

datatype request =
    CreateSwapOrder ethers string int SwapParams
  | ExecuteSwap chain_io string string
  | Withdraw ethers chain_io string string int
  | Cancel chain_io int string int

fun handle :: "request \<Rightarrow> HTLCResolver \<Rightarrow> HTLCResolver" where
  "handle (CreateSwapOrder e rnd now_ms params) s = snd (createSwapOrder e rnd now_ms params s)"
| "handle (ExecuteSwap io h makerSignature) s = snd (executeSwap io h makerSignature s)"
| "handle (Withdraw e io h secret' chainId') s = snd (withdraw e io h secret' chainId' s)"
| "handle (Cancel io now_ms h chainId') s = snd (cancel io now_ms h chainId' s)"

fun run :: "request list \<Rightarrow> HTLCResolver \<Rightarrow> HTLCResolver" where
  "run [] s = s"
| "run (r # rs) s = run rs (handle r s)"

subsection \<open>Predicates on orders and requests\<close>

text \<open>
  What holds of every order the registry ever holds: its status is never
  \<open>completed\<close>, and while it is \<open>pending\<close> no deployment is recorded in it.
\<close>

definition order_ok :: "SwapOrder \<Rightarrow> bool" where
  "order_ok order =
     (status order \<noteq> completed \<and>
      (if status order = pending
       then srcHTLCAddress order = None \<and> dstHTLCAddress order = None
            \<and> srcTxHash order = None \<and> dstTxHash order = None
       else True))"

text \<open>The key a request writes a new order under, if it creates one.\<close>

fun created_hash :: "request \<Rightarrow> HTLCResolver \<Rightarrow> string option" where
  "created_hash (CreateSwapOrder e rnd now_ms params) s =
     (case fst (createSwapOrder e rnd now_ms params s) of
        Inl _ \<Rightarrow> None
      | Inr order \<Rightarrow> Some (orderHash order))"
| "created_hash _ s = None"

text \<open>The status changes the specification allows.\<close>

definition transition_allowed :: "status \<Rightarrow> status \<Rightarrow> bool" where
  "transition_allowed a b =
     ((a = pending \<and> b = executed) \<or> (a = executed \<and> b = completed)
      \<or> (a = pending \<and> b = cancelled) \<or> (a = executed \<and> b = cancelled))"

section \<open>POST /swap/create (packages/resolver/src/index.ts)\<close>

text \<open>
  The fields of the request body, each absent or of the type \<open>createSwapOrder\<close>
  declares for it. \<open>!x\<close> holds of an absent field, of the empty string and of the
  number zero. \<open>res.json(order)\<close> is \<open>Json_order\<close>, \<open>res.status(n)\<close> the other two.
\<close>

record create_body =
  body_maker :: "string option"
  body_srcChainId :: "int option"
  body_dstChainId :: "int option"
  body_srcToken :: "string option"
  body_dstToken :: "string option"
  body_srcAmount :: "string option"
  body_dstAmount :: "string option"
  body_timelock :: "int option"

fun truthy_num :: "int option \<Rightarrow> bool" where
  "truthy_num None = False"
| "truthy_num (Some n) = (n \<noteq> 0)"

datatype response = Json_order SwapOrder | Status_400 string | Status_500 string

definition post_swap_create ::
  "ethers \<Rightarrow> string \<Rightarrow> int \<Rightarrow> create_body \<Rightarrow> HTLCResolver \<Rightarrow> response \<times> HTLCResolver" where
  "post_swap_create e rnd now_ms body s =
     (if \<not> (truthy (body_maker body) \<and> truthy_num (body_srcChainId body)
             \<and> truthy_num (body_dstChainId body) \<and> truthy (body_srcToken body)
             \<and> truthy (body_dstToken body) \<and> truthy (body_srcAmount body)
             \<and> truthy (body_dstAmount body))
      then (Status_400 ''Missing required fields'', s)
      else
        case createSwapOrder e rnd now_ms
               \<lparr>maker = the (body_maker body), srcChainId = the (body_srcChainId body),
                dstChainId = the (body_dstChainId body), srcToken = the (body_srcToken body),
                dstToken = the (body_dstToken body), srcAmount = the (body_srcAmount body),
                dstAmount = the (body_dstAmount body),
                timelock = (if truthy_num (body_timelock body) then the (body_timelock body)
                            else now_ms div 1000 + 24 * 60 * 60)\<rparr> s of
          (Inl err, s') \<Rightarrow> (Status_500 ''Failed to create swap order'', s')
        | (Inr swapOrder, s') \<Rightarrow> (Json_order swapOrder, s'))"

section \<open>A concrete environment\<close>

text \<open>
  Stand-ins for the library and the chains, to run the model on concrete inputs. The
  hash and the encoder are injective, as the real ones are meant to be, and have none
  of their other properties: the hash marks its argument, the encoder joins the fields
  and refuses what is not an unsigned integer.
\<close>

definition digit :: "nat \<Rightarrow> char" where
  "digit n = ''0123456789'' ! n"

fun dec :: "nat \<Rightarrow> string" where
  "dec n = (if n < 10 then [digit n] else dec (n div 10) @ [digit (n mod 10)])"

definition is_uint :: "string \<Rightarrow> bool" where
  "is_uint v = (v \<noteq> [] \<and> list_all (\<lambda>c. c \<in> set ''0123456789'') v)"

definition demo_ethers :: ethers where
  "demo_ethers =
     \<lparr>keccak256 = (\<lambda>v. if take 2 v = ''0x'' then Some (''0xH'' @ drop 2 v) else None),
      getAddress = (\<lambda>a. if length a = 42 \<and> take 2 a = ''0x'' then Some a else None),
      abiEncode = (\<lambda>(m, sc, dc, st, dt, sa, da, hl, tl).
         if 0 \<le> sc \<and> 0 \<le> dc \<and> 0 \<le> tl \<and> is_uint sa \<and> is_uint da
         then Some (''0x'' @ m @ '','' @ dec (nat sc) @ '','' @ dec (nat dc) @ '','' @ st
                    @ '','' @ dt @ '','' @ sa @ '','' @ da @ '','' @ hl @ '','' @ dec (nat tl))
         else None)\<rparr>"

definition demo_env :: process_env where
  "demo_env =
     \<lparr>SEPOLIA_RPC_URL = None, SEPOLIA_HTLC_FACTORY = None, POLYGON_AMOY_RPC_URL = None,
      POLYGON_AMOY_HTLC_FACTORY = None, RESOLVER_PRIVATE_KEY =
        Some ''0x0123456789abcdef0123456789abcdef0123456789abcdef0123456789abcdef'',
      MAKER_PRIVATE_KEY = None, TAKER_PRIVATE_KEY = None\<rparr>"

definition demo_resolver :: HTLCResolver where
  "demo_resolver = constructor demo_env (\<lambda>_. True)"

text \<open>The end-to-end scenario of the specification: 100 tokens for 99, two hours.\<close>

definition demo_params :: SwapParams where
  "demo_params =
     \<lparr>maker = ''0x1111111111111111111111111111111111111111'',
      srcChainId = 11155111, dstChainId = 80002,
      srcToken = ''0xb4E06750949B30B7A69DEa2FfD537C438Af44708'',
      dstToken = ''0x71F4091F883A265F164907e7a70Fb44be20a0CF3'',
      srcAmount = ''100000000000000000000'', dstAmount = ''99000000000000000000'',
      timelock = 1700007200\<rparr>"

definition demo_now :: int where
  "demo_now = 1700000000000"

definition demo_rnd :: string where
  "demo_rnd = ''00112233445566778899aabbccddeeff00112233445566778899aabbccddeeff''"

definition demo_rnd2 :: string where
  "demo_rnd2 = ''ffeeddccbbaa99887766554433221100ffeeddccbbaa99887766554433221100''"

text \<open>
  Chains on which every call succeeds, and chains whose destination deployment reverts.
  The receipt of a withdrawal or a cancellation carries the address of the escrow called.
\<close>

definition demo_io :: chain_io where
  "demo_io =
     \<lparr>wallet_address = (\<lambda>_. Some ''0x2222222222222222222222222222222222222222''),
      tx_approve = (\<lambda>_ _ _ _ _. True),
      tx_deploySourceHTLC = (\<lambda>_ _ _ _ _. Some ''0xa1''),
      call_getSourceHTLC = (\<lambda>_ _ _. Some ''0x3333333333333333333333333333333333333333''),
      tx_deployDestinationHTLC = (\<lambda>_ _ _ _ _ _. Some ''0xa2''),
      call_getDestinationHTLC = (\<lambda>_ _ _. Some ''0x4444444444444444444444444444444444444444''),
      tx_withdraw = (\<lambda>_ htlc _. Some (''0xa3'' @ drop 2 htlc)),
      tx_cancel = (\<lambda>_ htlc. Some (''0xa4'' @ drop 2 htlc))\<rparr>"

definition demo_io_dst_fails :: chain_io where
  "demo_io_dst_fails = demo_io\<lparr>tx_deployDestinationHTLC := (\<lambda>_ _ _ _ _ _. None)\<rparr>"

text \<open>The order hashes the stand-ins compute, and the orders they lead to.\<close>

definition demo_hash :: string where
  "demo_hash = ''0xH'' @ ''0x1111111111111111111111111111111111111111,11155111,80002,''
     @ ''0xb4E06750949B30B7A69DEa2FfD537C438Af44708,''
     @ ''0x71F4091F883A265F164907e7a70Fb44be20a0CF3,''
     @ ''100000000000000000000,99000000000000000000,''
     @ ''0xH00112233445566778899aabbccddeeff00112233445566778899aabbccddeeff,1700007200''"

definition demo_created :: HTLCResolver where
  "demo_created = run [CreateSwapOrder demo_ethers demo_rnd demo_now demo_params] demo_resolver"

definition demo_executed :: HTLCResolver where
  "demo_executed = run [ExecuteSwap demo_io demo_hash ''0xsig''] demo_created"


definition demo_order :: SwapOrder where
  "demo_order =
     \<lparr>maker = maker demo_params, srcChainId = 11155111, dstChainId = 80002,
      srcToken = srcToken demo_params, dstToken = dstToken demo_params,
      srcAmount = ''100000000000000000000'', dstAmount = ''99000000000000000000'',
      timelock = 1700007200, orderHash = demo_hash, secret = ''0x'' @ demo_rnd,
      hashLock = ''0xH'' @ demo_rnd, status = pending, createdAt = 1700000000,
      srcHTLCAddress = None, dstHTLCAddress = None, srcTxHash = None, dstTxHash = None\<rparr>"

definition demo_order_executed :: SwapOrder where
  "demo_order_executed =
     demo_order\<lparr>status := executed, srcTxHash := Some ''0xa1'', dstTxHash := Some ''0xa2'',
       srcHTLCAddress := Some ''0x3333333333333333333333333333333333333333'',
       dstHTLCAddress := Some ''0x4444444444444444444444444444444444444444''\<rparr>"



definition demo_secret :: string where
  "demo_secret = ''0x'' @ demo_rnd"

definition demo_withdrawn :: HTLCResolver where
  "demo_withdrawn =
     run [Withdraw demo_ethers demo_io demo_hash demo_secret 11155111,
          Withdraw demo_ethers demo_io demo_hash demo_secret 80002] demo_executed"

definition demo_body_zero :: create_body where
  "demo_body_zero =
     \<lparr>body_maker = Some (maker demo_params), body_srcChainId = Some 11155111,
      body_dstChainId = Some 80002, body_srcToken = Some (srcToken demo_params),
      body_dstToken = Some (dstToken demo_params), body_srcAmount = Some ''0'',
      body_dstAmount = Some ''99000000000000000000'', body_timelock = Some 1700007200\<rparr>"

text \<open>An order whose two legs are on the same chain, created and executed.\<close>

definition demo_same_params :: SwapParams where
  "demo_same_params = demo_params\<lparr>dstChainId := 11155111\<rparr>"

definition demo_same_hash :: string where
  "demo_same_hash = ''0xH'' @ ''0x1111111111111111111111111111111111111111,11155111,11155111,''
     @ ''0xb4E06750949B30B7A69DEa2FfD537C438Af44708,''
     @ ''0x71F4091F883A265F164907e7a70Fb44be20a0CF3,''
     @ ''100000000000000000000,99000000000000000000,''
     @ ''0xH00112233445566778899aabbccddeeff00112233445566778899aabbccddeeff,1700007200''"

definition demo_same_order :: SwapOrder where
  "demo_same_order = demo_order_executed\<lparr>dstChainId := 11155111, orderHash := demo_same_hash\<rparr>"

definition demo_same :: HTLCResolver where
  "demo_same =
     run [CreateSwapOrder demo_ethers demo_rnd demo_now demo_same_params,
          ExecuteSwap demo_io demo_same_hash ''0xsig''] demo_resolver"

text \<open>Escrows for running the contracts: the toy hash is the successor.\<close>

definition demo_escrow_src :: HTLCSource where
  "demo_escrow_src = HTLCSource_constructor 1 10 20 100 30 99 (Suc 5) 7200 80002"

definition demo_escrow_dst :: HTLCDestination where
  "demo_escrow_dst = HTLCDestination_constructor 1 11 20 100 30 99 (Suc 5) 7200 11155111"

definition demo_factory :: HTLCFactory where
  "demo_factory = \<lparr>sourceHTLCs = (\<lambda>_. 0), destinationHTLCs = (\<lambda>_. 0), entered_factory = False\<rparr>"

section \<open>The escrow state machine\<close>

lemma HTLCSource_withdraw_Inr:
  assumes "HTLCSource_withdraw k tok tx p c = Inr c'"
  shows "state_src c = PENDING" and "block_timestamp tx < timelock_src c"
    and "k p = hashLock_src c" and "state_src c' = WITHDRAWN"
  using assms by (auto simp: HTLCSource_withdraw_def split: if_splits)

lemma HTLCSource_cancel_Inr:
  assumes "HTLCSource_cancel tok tx c = Inr c'"
  shows "state_src c = PENDING" and "timelock_src c \<le> block_timestamp tx"
    and "state_src c' = CANCELLED"
  using assms by (auto simp: HTLCSource_cancel_def split: if_splits)

lemma HTLCDestination_withdraw_Inr:
  assumes "HTLCDestination_withdraw k tok tx p c = Inr c'"
  shows "state_dst c = PENDING" and "block_timestamp tx < timelock_dst c"
    and "k p = hashLock_dst c" and "state_dst c' = WITHDRAWN"
  using assms by (auto simp: HTLCDestination_withdraw_def split: if_splits)

lemma HTLCDestination_cancel_Inr:
  assumes "HTLCDestination_cancel tok tx c = Inr c'"
  shows "state_dst c = PENDING" and "timelock_dst c \<le> block_timestamp tx"
    and "state_dst c' = CANCELLED"
  using assms by (auto simp: HTLCDestination_cancel_def split: if_splits)

lemma HTLCSource_call_left:
  assumes "state_src c \<noteq> PENDING"
  shows "\<exists>r. HTLCSource_call k tok tx call c = Inl r"
proof (cases call)
  case (Withdraw_call p)
  show ?thesis
  proof (cases "HTLCSource_withdraw k tok tx p c")
    case (Inl r)
    with Withdraw_call show ?thesis by simp
  next
    case (Inr c')
    from HTLCSource_withdraw_Inr(1)[OF Inr] assms show ?thesis by simp
  qed
next
  case Cancel_call
  show ?thesis
  proof (cases "HTLCSource_cancel tok tx c")
    case (Inl r)
    with Cancel_call show ?thesis by simp
  next
    case (Inr c')
    from HTLCSource_cancel_Inr(1)[OF Inr] assms show ?thesis by simp
  qed
qed

lemma HTLCSource_run_left:
  assumes "state_src c \<noteq> PENDING"
  shows "HTLCSource_run k calls c = (c, map (\<lambda>_. False) calls)"
proof (induction calls)
  case Nil
  show ?case by simp
next
  case (Cons x calls)
  obtain tok tx call where x: "x = (tok, tx, call)" by (cases x) auto
  from HTLCSource_call_left[OF assms] obtain r
    where "HTLCSource_call k tok tx call c = Inl r" by blast
  with Cons x show ?case by simp
qed

lemma HTLCDestination_call_left:
  assumes "state_dst c \<noteq> PENDING"
  shows "\<exists>r. HTLCDestination_call k tok tx call c = Inl r"
proof (cases call)
  case (Withdraw_call p)
  show ?thesis
  proof (cases "HTLCDestination_withdraw k tok tx p c")
    case (Inl r)
    with Withdraw_call show ?thesis by simp
  next
    case (Inr c')
    from HTLCDestination_withdraw_Inr(1)[OF Inr] assms show ?thesis by simp
  qed
next
  case Cancel_call
  show ?thesis
  proof (cases "HTLCDestination_cancel tok tx c")
    case (Inl r)
    with Cancel_call show ?thesis by simp
  next
    case (Inr c')
    from HTLCDestination_cancel_Inr(1)[OF Inr] assms show ?thesis by simp
  qed
qed

lemma HTLCDestination_run_left:
  assumes "state_dst c \<noteq> PENDING"
  shows "HTLCDestination_run k calls c = (c, map (\<lambda>_. False) calls)"
proof (induction calls)
  case Nil
  show ?case by simp
next
  case (Cons x calls)
  obtain tok tx call where x: "x = (tok, tx, call)" by (cases x) auto
  from HTLCDestination_call_left[OF assms] obtain r
    where "HTLCDestination_call k tok tx call c = Inl r" by blast
  with Cons x show ?case by simp
qed

text \<open>
  Claim C5. On both escrow contracts: a \<open>withdraw(preimage)\<close> that succeeds was called
  in state \<open>PENDING\<close>, before the timelock, with a preimage whose hash is the hash
  lock, and leaves the state \<open>WITHDRAWN\<close>; a \<open>cancel()\<close> that succeeds was called in
  state \<open>PENDING\<close>, at or after the timelock, and leaves the state \<open>CANCELLED\<close>; and
  from a state other than \<open>PENDING\<close> every later transaction, withdraw or cancel, in
  any number and any order, reverts and the storage stays as it is.
\<close>

theorem escrow_single_shot:
  "(HTLCSource_withdraw k tok1 tx1 p c1 = Inr c1' \<longrightarrow>
      state_src c1 = PENDING \<and> block_timestamp tx1 < timelock_src c1
      \<and> k p = hashLock_src c1 \<and> state_src c1' = WITHDRAWN)
   \<and> (HTLCSource_cancel tok2 tx2 c2 = Inr c2' \<longrightarrow>
      state_src c2 = PENDING \<and> timelock_src c2 \<le> block_timestamp tx2
      \<and> state_src c2' = CANCELLED)
   \<and> (state_src c3 \<noteq> PENDING \<longrightarrow>
      HTLCSource_run k calls c3 = (c3, map (\<lambda>_. False) calls))
   \<and> (HTLCDestination_withdraw k tok1 tx1 p d1 = Inr d1' \<longrightarrow>
      state_dst d1 = PENDING \<and> block_timestamp tx1 < timelock_dst d1
      \<and> k p = hashLock_dst d1 \<and> state_dst d1' = WITHDRAWN)
   \<and> (HTLCDestination_cancel tok2 tx2 d2 = Inr d2' \<longrightarrow>
      state_dst d2 = PENDING \<and> timelock_dst d2 \<le> block_timestamp tx2
      \<and> state_dst d2' = CANCELLED)
   \<and> (state_dst d3 \<noteq> PENDING \<longrightarrow>
      HTLCDestination_run k calls d3 = (d3, map (\<lambda>_. False) calls))"
proof (intro conjI impI)
  assume a: "HTLCSource_withdraw k tok1 tx1 p c1 = Inr c1'"
  show "state_src c1 = PENDING" by (rule HTLCSource_withdraw_Inr(1)[OF a])
  show "block_timestamp tx1 < timelock_src c1" by (rule HTLCSource_withdraw_Inr(2)[OF a])
  show "k p = hashLock_src c1" by (rule HTLCSource_withdraw_Inr(3)[OF a])
  show "state_src c1' = WITHDRAWN" by (rule HTLCSource_withdraw_Inr(4)[OF a])
next
  assume a: "HTLCSource_cancel tok2 tx2 c2 = Inr c2'"
  show "state_src c2 = PENDING" by (rule HTLCSource_cancel_Inr(1)[OF a])
  show "timelock_src c2 \<le> block_timestamp tx2" by (rule HTLCSource_cancel_Inr(2)[OF a])
  show "state_src c2' = CANCELLED" by (rule HTLCSource_cancel_Inr(3)[OF a])
next
  assume "state_src c3 \<noteq> PENDING"
  then show "HTLCSource_run k calls c3 = (c3, map (\<lambda>_. False) calls)"
    by (rule HTLCSource_run_left)
next
  assume a: "HTLCDestination_withdraw k tok1 tx1 p d1 = Inr d1'"
  show "state_dst d1 = PENDING" by (rule HTLCDestination_withdraw_Inr(1)[OF a])
  show "block_timestamp tx1 < timelock_dst d1" by (rule HTLCDestination_withdraw_Inr(2)[OF a])
  show "k p = hashLock_dst d1" by (rule HTLCDestination_withdraw_Inr(3)[OF a])
  show "state_dst d1' = WITHDRAWN" by (rule HTLCDestination_withdraw_Inr(4)[OF a])
next
  assume a: "HTLCDestination_cancel tok2 tx2 d2 = Inr d2'"
  show "state_dst d2 = PENDING" by (rule HTLCDestination_cancel_Inr(1)[OF a])
  show "timelock_dst d2 \<le> block_timestamp tx2" by (rule HTLCDestination_cancel_Inr(2)[OF a])
  show "state_dst d2' = CANCELLED" by (rule HTLCDestination_cancel_Inr(3)[OF a])
next
  assume "state_dst d3 \<noteq> PENDING"
  then show "HTLCDestination_run k calls d3 = (d3, map (\<lambda>_. False) calls)"
    by (rule HTLCDestination_run_left)
qed

theorem escrow_single_shot_witness:
  "HTLCSource_withdraw Suc (\<lambda>_. True) \<lparr>block_timestamp = 100, msg_sender = 7\<rparr> 5 demo_escrow_src
     = Inr (demo_escrow_src\<lparr>state_src := WITHDRAWN, withdrawnBy_src := 7, preimage_src := 5\<rparr>)
   \<and> state_src demo_escrow_src = PENDING
   \<and> (100::nat) < timelock_src demo_escrow_src
   \<and> Suc 5 = hashLock_src demo_escrow_src
   \<and> HTLCSource_cancel (\<lambda>_. True) \<lparr>block_timestamp = 7200, msg_sender = 10\<rparr> demo_escrow_src
     = Inr (demo_escrow_src\<lparr>state_src := CANCELLED\<rparr>)
   \<and> timelock_src demo_escrow_src \<le> (7200::nat)
   \<and> HTLCSource_run Suc
        [((\<lambda>_. True), \<lparr>block_timestamp = 100, msg_sender = 7\<rparr>, Withdraw_call 5),
         ((\<lambda>_. True), \<lparr>block_timestamp = 7200, msg_sender = 10\<rparr>, Cancel_call)]
        (demo_escrow_src\<lparr>state_src := WITHDRAWN\<rparr>)
     = (demo_escrow_src\<lparr>state_src := WITHDRAWN\<rparr>, [False, False])
   \<and> HTLCDestination_withdraw Suc (\<lambda>_. True) \<lparr>block_timestamp = 100, msg_sender = 7\<rparr> 5
        demo_escrow_dst
     = Inr (demo_escrow_dst\<lparr>state_dst := WITHDRAWN, withdrawnBy_dst := 7, preimage_dst := 5\<rparr>)
   \<and> state_dst demo_escrow_dst = PENDING
   \<and> HTLCDestination_cancel (\<lambda>_. True) \<lparr>block_timestamp = 7200, msg_sender = 10\<rparr>
        demo_escrow_dst
     = Inr (demo_escrow_dst\<lparr>state_dst := CANCELLED\<rparr>)
   \<and> HTLCDestination_run Suc
        [((\<lambda>_. True), \<lparr>block_timestamp = 100, msg_sender = 7\<rparr>, Withdraw_call 5),
         ((\<lambda>_. True), \<lparr>block_timestamp = 7200, msg_sender = 10\<rparr>, Cancel_call)]
        (demo_escrow_dst\<lparr>state_dst := CANCELLED\<rparr>)
     = (demo_escrow_dst\<lparr>state_dst := CANCELLED\<rparr>, [False, False])"
  using escrow_single_shot [where k = Suc and ?tok1.0 = "\<lambda>_. True"
      and ?tx1.0 = "\<lparr>block_timestamp = 100, msg_sender = 7\<rparr>" and p = 5
      and ?c1.0 = demo_escrow_src
      and ?c1' = "demo_escrow_src\<lparr>state_src := WITHDRAWN, withdrawnBy_src := 7, preimage_src := 5\<rparr>"
      and ?tok2.0 = "\<lambda>_. True"
      and ?tx2.0 = "\<lparr>block_timestamp = 7200, msg_sender = 10\<rparr>"
      and ?c2.0 = demo_escrow_src
      and ?c2' = "demo_escrow_src\<lparr>state_src := CANCELLED\<rparr>"
      and ?c3.0 = "demo_escrow_src\<lparr>state_src := WITHDRAWN\<rparr>"
      and calls = "[((\<lambda>_. True), \<lparr>block_timestamp = 100, msg_sender = 7\<rparr>, Withdraw_call 5),
         ((\<lambda>_. True), \<lparr>block_timestamp = 7200, msg_sender = 10\<rparr>, Cancel_call)]"
      and ?d1.0 = demo_escrow_dst
      and ?d1' = "demo_escrow_dst\<lparr>state_dst := WITHDRAWN, withdrawnBy_dst := 7, preimage_dst := 5\<rparr>"
      and ?d2.0 = demo_escrow_dst
      and ?d2' = "demo_escrow_dst\<lparr>state_dst := CANCELLED\<rparr>"
      and ?d3.0 = "demo_escrow_dst\<lparr>state_dst := CANCELLED\<rparr>"]
  by (simp add: demo_escrow_src_def demo_escrow_dst_def HTLCSource_constructor_def
      HTLCDestination_constructor_def HTLCSource_withdraw_def HTLCSource_cancel_def
      HTLCDestination_withdraw_def HTLCDestination_cancel_def)

section \<open>The factory's timelock window\<close>

lemma deploySourceHTLC_Inr:
  assumes "deploySourceHTLC tok tx created oh mk ma mam ta tam hl tlock dc f = Inr r"
  shows "block_timestamp tx + MIN_TIMELOCK \<le> tlock" and "tlock \<le> block_timestamp tx + MAX_TIMELOCK"
  using assms
  by (auto simp: deploySourceHTLC_def checked_add_def split: if_splits option.splits)

lemma deployDestinationHTLC_Inr:
  assumes "deployDestinationHTLC tok tx created oh tk ma mam ta tam hl tlock sc f = Inr r"
  shows "block_timestamp tx + MIN_TIMELOCK \<le> tlock" and "tlock \<le> block_timestamp tx + MAX_TIMELOCK"
  using assms
  by (auto simp: deployDestinationHTLC_def checked_add_def split: if_splits option.splits)

text \<open>
  Claim C8, as the code has it. A deployment of an escrow, source or destination,
  succeeds only if the timelock lies in the closed interval from the block's timestamp
  plus \<open>MIN_TIMELOCK\<close> (one hour) to the block's timestamp plus \<open>MAX_TIMELOCK\<close> (seven
  days), both ends included; with a timelock below or above it, both functions revert.
  The timestamp is that of the block of the chain the factory runs on.
\<close>

theorem deploy_timelock_window:
  "(deploySourceHTLC tok tx created oh mk ma mam ta tam hl tlock dc f = Inr r1 \<longrightarrow>
      block_timestamp tx + MIN_TIMELOCK \<le> tlock \<and> tlock \<le> block_timestamp tx + MAX_TIMELOCK)
   \<and> (deployDestinationHTLC tok tx created oh mk ma mam ta tam hl tlock dc f = Inr r2 \<longrightarrow>
      block_timestamp tx + MIN_TIMELOCK \<le> tlock \<and> tlock \<le> block_timestamp tx + MAX_TIMELOCK)
   \<and> (tlock' < block_timestamp tx + MIN_TIMELOCK \<or> block_timestamp tx + MAX_TIMELOCK < tlock' \<longrightarrow>
      isl (deploySourceHTLC tok tx created oh mk ma mam ta tam hl tlock' dc f)
      \<and> isl (deployDestinationHTLC tok tx created oh mk ma mam ta tam hl tlock' dc f))"
proof (intro conjI impI)
  assume a: "deploySourceHTLC tok tx created oh mk ma mam ta tam hl tlock dc f = Inr r1"
  show "block_timestamp tx + MIN_TIMELOCK \<le> tlock" by (rule deploySourceHTLC_Inr(1)[OF a])
  show "tlock \<le> block_timestamp tx + MAX_TIMELOCK" by (rule deploySourceHTLC_Inr(2)[OF a])
next
  assume a: "deployDestinationHTLC tok tx created oh mk ma mam ta tam hl tlock dc f = Inr r2"
  show "block_timestamp tx + MIN_TIMELOCK \<le> tlock" by (rule deployDestinationHTLC_Inr(1)[OF a])
  show "tlock \<le> block_timestamp tx + MAX_TIMELOCK" by (rule deployDestinationHTLC_Inr(2)[OF a])
next
  assume out: "tlock' < block_timestamp tx + MIN_TIMELOCK \<or> block_timestamp tx + MAX_TIMELOCK < tlock'"
  show "isl (deploySourceHTLC tok tx created oh mk ma mam ta tam hl tlock' dc f)"
  proof (cases "deploySourceHTLC tok tx created oh mk ma mam ta tam hl tlock' dc f")
    case (Inl e)
    then show ?thesis by simp
  next
    case (Inr r)
    from deploySourceHTLC_Inr[OF Inr] out show ?thesis by linarith
  qed
  show "isl (deployDestinationHTLC tok tx created oh mk ma mam ta tam hl tlock' dc f)"
  proof (cases "deployDestinationHTLC tok tx created oh mk ma mam ta tam hl tlock' dc f")
    case (Inl e)
    then show ?thesis by simp
  next
    case (Inr r)
    from deployDestinationHTLC_Inr[OF Inr] out show ?thesis by linarith
  qed
qed

theorem deploy_timelock_window_witness:
  "deploySourceHTLC (\<lambda>_. True) \<lparr>block_timestamp = 1700000000, msg_sender = 10\<rparr> 77
      1 10 20 100 30 99 6 1700007200 80002 demo_factory
     = Inr (77, HTLCSource_constructor 1 10 20 100 30 99 6 1700007200 80002,
            demo_factory\<lparr>sourceHTLCs := (sourceHTLCs demo_factory)(1 := 77)\<rparr>)
   \<and> deployDestinationHTLC (\<lambda>_. True) \<lparr>block_timestamp = 1700000000, msg_sender = 10\<rparr> 77
      1 10 20 100 30 99 6 1700007200 80002 demo_factory
     = Inr (77, HTLCDestination_constructor 1 10 20 100 30 99 6 1700007200 80002,
            demo_factory\<lparr>destinationHTLCs := (destinationHTLCs demo_factory)(1 := 77)\<rparr>)
   \<and> (1700000000::nat) + MIN_TIMELOCK \<le> 1700007200
   \<and> (1700007200::nat) \<le> 1700000000 + MAX_TIMELOCK
   \<and> (1700003599::nat) < 1700000000 + MIN_TIMELOCK
   \<and> isl (deploySourceHTLC (\<lambda>_. True) \<lparr>block_timestamp = 1700000000, msg_sender = 10\<rparr> 77
      1 10 20 100 30 99 6 1700003599 80002 demo_factory)
   \<and> isl (deployDestinationHTLC (\<lambda>_. True) \<lparr>block_timestamp = 1700000000, msg_sender = 10\<rparr> 77
      1 10 20 100 30 99 6 1700003599 80002 demo_factory)"
  using deploy_timelock_window [where tok = "\<lambda>_. True"
      and tx = "\<lparr>block_timestamp = 1700000000, msg_sender = 10\<rparr>" and created = 77
      and oh = 1 and mk = 10 and ma = 20 and mam = 100 and ta = 30 and tam = 99 and hl = 6
      and tlock = 1700007200 and dc = 80002 and f = demo_factory and tlock' = 1700003599
      and ?r1.0 = "(77, HTLCSource_constructor 1 10 20 100 30 99 6 1700007200 80002,
            demo_factory\<lparr>sourceHTLCs := (sourceHTLCs demo_factory)(1 := 77)\<rparr>)"
      and ?r2.0 = "(77, HTLCDestination_constructor 1 10 20 100 30 99 6 1700007200 80002,
            demo_factory\<lparr>destinationHTLCs := (destinationHTLCs demo_factory)(1 := 77)\<rparr>)"]
  by (simp add: deploySourceHTLC_def deployDestinationHTLC_def checked_add_def
      MIN_TIMELOCK_def MAX_TIMELOCK_def demo_factory_def)

text \<open>
  The claim as the specification words it asks for a timelock strictly inside the
  window. At the two ends the code accepts: a source escrow whose timelock is exactly
  one hour after the block's timestamp, and a destination escrow whose timelock is
  exactly seven days after it, are both deployed.
\<close>

theorem deploy_timelock_window_counterexample:
  "\<not> isl (deploySourceHTLC (\<lambda>_. True) \<lparr>block_timestamp = 1700000000, msg_sender = 10\<rparr> 77
      1 10 20 100 30 99 6 1700003600 80002 demo_factory)
   \<and> \<not> (1700000000 + MIN_TIMELOCK < (1700003600::nat))
   \<and> \<not> isl (deployDestinationHTLC (\<lambda>_. True) \<lparr>block_timestamp = 1700000000, msg_sender = 10\<rparr> 77
      1 10 20 100 30 99 6 1700604800 11155111 demo_factory)
   \<and> \<not> ((1700604800::nat) < 1700000000 + MAX_TIMELOCK)"
  by (simp add: deploySourceHTLC_def deployDestinationHTLC_def checked_add_def
      MIN_TIMELOCK_def MAX_TIMELOCK_def demo_factory_def)

section \<open>The resolver: what each call does to the registry\<close>

lemma createSwapOrder_cases:
  "createSwapOrder e rnd now_ms p s = (Inl (Failed_to_create Library_error), s)
   \<or> (\<exists>order. createSwapOrder e rnd now_ms p s
                 = (Inr order, s\<lparr>orders := (orders s)(orderHash order \<mapsto> order)\<rparr>)
        \<and> status order = pending \<and> srcHTLCAddress order = None \<and> dstHTLCAddress order = None
        \<and> srcTxHash order = None \<and> dstTxHash order = None
        \<and> secret order = ''0x'' @ rnd
        \<and> keccak256 e (secret order) = Some (hashLock order))"
  by (simp add: createSwapOrder_def Let_def split: option.splits)

lemma createSwapOrder_Inr:
  assumes "createSwapOrder e rnd now_ms p s = (Inr order, s')"
  shows "s' = s\<lparr>orders := (orders s)(orderHash order \<mapsto> order)\<rparr>"
    and "keccak256 e (secret order) = Some (hashLock order)"
    and "secret order = ''0x'' @ rnd"
  using assms createSwapOrder_cases[of e rnd now_ms p s] by auto


lemma executeSwap_cases:
  "(\<exists>err. executeSwap io h sg s = (Inl err, s))
   \<or> (\<exists>order r t1 t2 a1 a2. orders s h = Some order \<and> status order = pending
        \<and> executeSwap io h sg s
           = (Inr r, s\<lparr>orders := (orders s)(h \<mapsto>
                order\<lparr>status := executed, srcTxHash := Some t1, dstTxHash := Some t2,
                      srcHTLCAddress := Some a1, dstHTLCAddress := Some a2\<rparr>)\<rparr>))"
  by (auto simp: executeSwap_def split: option.splits sum.splits)

lemma withdraw_state: "snd (withdraw e io h sec cid s) = s"
  by (simp add: withdraw_def Let_def split: option.splits)

lemma cancel_cases:
  "(\<exists>err. cancel io now_ms h cid s = (Inl err, s))
   \<or> (\<exists>order r. orders s h = Some order
        \<and> cancel io now_ms h cid s
           = (Inr r, s\<lparr>orders := (orders s)(h \<mapsto> order\<lparr>status := cancelled\<rparr>)\<rparr>))"
  by (auto simp: cancel_def Let_def split: option.splits)

subsection \<open>What holds of every stored order\<close>

lemma ok_upd:
  assumes "\<forall>h order. orders s h = Some order \<longrightarrow> order_ok order" and "order_ok v"
  shows "\<forall>h order. orders (s\<lparr>orders := (orders s)(k \<mapsto> v)\<rparr>) h = Some order \<longrightarrow> order_ok order"
  using assms by (auto split: if_splits)

lemma handle_ok:
  assumes "\<forall>h order. orders s h = Some order \<longrightarrow> order_ok order"
  shows "\<forall>h order. orders (handle r s) h = Some order \<longrightarrow> order_ok order"
proof (cases r)
  case (CreateSwapOrder e rnd now_ms p)
  from createSwapOrder_cases[of e rnd now_ms p s] show ?thesis
  proof
    assume "createSwapOrder e rnd now_ms p s = (Inl (Failed_to_create Library_error), s)"
    with assms CreateSwapOrder show ?thesis by simp
  next
    assume "\<exists>order. createSwapOrder e rnd now_ms p s
                 = (Inr order, s\<lparr>orders := (orders s)(orderHash order \<mapsto> order)\<rparr>)
        \<and> status order = pending \<and> srcHTLCAddress order = None \<and> dstHTLCAddress order = None
        \<and> srcTxHash order = None \<and> dstTxHash order = None
        \<and> secret order = ''0x'' @ rnd
        \<and> keccak256 e (secret order) = Some (hashLock order)"
    then obtain v where v: "createSwapOrder e rnd now_ms p s
                 = (Inr v, s\<lparr>orders := (orders s)(orderHash v \<mapsto> v)\<rparr>)"
      and "order_ok v" by (auto simp: order_ok_def)
    from ok_upd[OF assms this(2)] v CreateSwapOrder show ?thesis by simp
  qed
next
  case (ExecuteSwap io h sg)
  from executeSwap_cases[of io h sg s] show ?thesis
  proof
    assume "\<exists>err. executeSwap io h sg s = (Inl err, s)"
    with assms ExecuteSwap show ?thesis by auto
  next
    assume "\<exists>order r t1 t2 a1 a2. orders s h = Some order \<and> status order = pending
        \<and> executeSwap io h sg s
           = (Inr r, s\<lparr>orders := (orders s)(h \<mapsto>
                order\<lparr>status := executed, srcTxHash := Some t1, dstTxHash := Some t2,
                      srcHTLCAddress := Some a1, dstHTLCAddress := Some a2\<rparr>)\<rparr>)"
    then obtain v r where v: "executeSwap io h sg s = (Inr r, s\<lparr>orders := (orders s)(h \<mapsto> v)\<rparr>)"
      and "order_ok v" by (auto simp: order_ok_def)
    from ok_upd[OF assms this(2)] v ExecuteSwap show ?thesis by simp
  qed
next
  case (Withdraw e io h sec cid)
  with assms show ?thesis by (simp add: withdraw_state)
next
  case (Cancel io now_ms h cid)
  from cancel_cases[of io now_ms h cid s] show ?thesis
  proof
    assume "\<exists>err. cancel io now_ms h cid s = (Inl err, s)"
    with assms Cancel show ?thesis by auto
  next
    assume "\<exists>order r. orders s h = Some order
        \<and> cancel io now_ms h cid s
           = (Inr r, s\<lparr>orders := (orders s)(h \<mapsto> order\<lparr>status := cancelled\<rparr>)\<rparr>)"
    then obtain v r where v: "cancel io now_ms h cid s = (Inr r, s\<lparr>orders := (orders s)(h \<mapsto> v)\<rparr>)"
      and "order_ok v" by (auto simp: order_ok_def)
    from ok_upd[OF assms this(2)] v Cancel show ?thesis by simp
  qed
qed

lemma run_ok:
  assumes "\<forall>h order. orders s h = Some order \<longrightarrow> order_ok order"
  shows "\<forall>h order. orders (run reqs s) h = Some order \<longrightarrow> order_ok order"
  using assms
proof (induction reqs arbitrary: s)
  case Nil
  then show ?case by simp
next
  case (Cons r reqs)
  from handle_ok[OF Cons.prems] have "\<forall>h order. orders (handle r s) h = Some order \<longrightarrow> order_ok order" .
  from Cons.IH[OF this] show ?case by simp
qed

lemma reachable_ok:
  assumes "orders s0 = Map.empty" and "orders (run reqs s0) h = Some order"
  shows "order_ok order"
proof -
  from assms(1) have "\<forall>h order. orders s0 h = Some order \<longrightarrow> order_ok order" by simp
  from run_ok[OF this] assms(2) show ?thesis by blast
qed

lemma orders_initializeProviders: "orders (initializeProviders connect s) = orders s"
proof -
  have "orders (fold (\<lambda>chain s'.
                  if connect chain
                  then s'\<lparr>providers := insert (chainId chain) (providers s'),
                          resolverWallet := insert (chainId chain) (resolverWallet s')\<rparr>
                  else s') cs s) = orders s" for cs
    by (induction cs arbitrary: s) auto
  then show ?thesis by (simp add: initializeProviders_def)
qed

lemma orders_constructor: "orders (constructor ev connect) = Map.empty"
  by (simp add: constructor_def orders_initializeProviders)

section \<open>The concrete run\<close>

lemmas demo_lib = demo_ethers_def demo_params_def demo_now_def demo_rnd_def
  demo_hash_def demo_order_def demo_order_executed_def is_uint_def digit_def

lemma demo_resolver_fields:
  "orders demo_resolver = Map.empty"
  "providers demo_resolver = {80002, 11155111}"
  "resolverWallet demo_resolver = {80002, 11155111}"
  "chains demo_resolver = chains_of demo_env"
  "env demo_resolver = demo_env"
  by (simp_all add: demo_resolver_def constructor_def initializeProviders_def chains_of_def
      demo_env_def or_default_def)

lemma demo_create:
  "createSwapOrder demo_ethers demo_rnd demo_now demo_params demo_resolver
     = (Inr demo_order, demo_created)"
  by (simp add: demo_created_def createSwapOrder_def Let_def demo_lib)

lemma demo_created_fields:
  "orders demo_created = [demo_hash \<mapsto> demo_order]"
  "providers demo_created = {80002, 11155111}"
  "resolverWallet demo_created = {80002, 11155111}"
  "chains demo_created = chains_of demo_env"
  "env demo_created = demo_env"
  by (simp_all add: demo_created_def createSwapOrder_def Let_def demo_lib demo_resolver_fields)

lemma demo_execute:
  "executeSwap demo_io demo_hash ''0xsig'' demo_created
     = (Inr (''0xa1'', ''0xa2''), demo_executed)"
  by (simp add: demo_executed_def executeSwap_def deploy_source_leg_def
      deploy_destination_leg_def find_factory_def js_or_def chains_of_def or_default_def
      demo_env_def demo_io_def demo_created_fields demo_order_def)

lemma demo_executed_fields:
  "orders demo_executed = [demo_hash \<mapsto> demo_order_executed]"
  "providers demo_executed = {80002, 11155111}"
  "resolverWallet demo_executed = {80002, 11155111}"
  "chains demo_executed = chains_of demo_env"
  "env demo_executed = demo_env"
  by (simp_all add: demo_executed_def executeSwap_def deploy_source_leg_def
      deploy_destination_leg_def find_factory_def js_or_def chains_of_def or_default_def
      demo_env_def demo_io_def demo_created_fields demo_order_def demo_order_executed_def)

lemma demo_legs:
  "deploy_source_leg demo_io_dst_fails demo_created demo_hash demo_order
     = Inr (''0xa1'', ''0x3333333333333333333333333333333333333333'')"
  "deploy_destination_leg demo_io_dst_fails demo_created demo_hash demo_order = Inl Chain_error"
  by (simp_all add: deploy_source_leg_def deploy_destination_leg_def find_factory_def js_or_def
      chains_of_def or_default_def demo_env_def demo_io_def demo_io_dst_fails_def
      demo_created_fields demo_order_def)

lemma demo_reach:
  "demo_created = run [CreateSwapOrder demo_ethers demo_rnd demo_now demo_params] demo_resolver"
  "demo_executed = run [CreateSwapOrder demo_ethers demo_rnd demo_now demo_params,
                        ExecuteSwap demo_io demo_hash ''0xsig''] demo_resolver"
  by (simp_all add: demo_created_def demo_executed_def)

lemma demo_same_fields:
  "orders demo_same = [demo_same_hash \<mapsto> demo_same_order]"
  "providers demo_same = {80002, 11155111}"
  "resolverWallet demo_same = {80002, 11155111}"
  by (simp_all add: demo_same_def demo_same_params_def demo_same_hash_def demo_same_order_def
      createSwapOrder_def Let_def executeSwap_def deploy_source_leg_def
      deploy_destination_leg_def find_factory_def js_or_def chains_of_def or_default_def
      demo_env_def demo_io_def demo_resolver_fields demo_lib)




section \<open>The claims about the resolver\<close>




text \<open>
  Claim C2. In every state the resolver can reach from an empty registry, and for every
  order it holds, a call of \<open>executeSwap\<close>, \<open>withdraw\<close> or \<open>cancel\<close> (on this order
  or another) leaves the order in the registry with its status unchanged or moved along
  one of: pending to executed, executed to completed, pending or executed to cancelled;
  and an order that is completed or cancelled keeps its status. The same holds of a
  \<open>createSwapOrder\<close> that does not write this order's own key again (it would have to
  draw the same secret for the same parameters). Calls are taken one at a time.
\<close>

theorem status_monotonic:
  assumes init: "orders s0 = Map.empty" and s: "s = run reqs s0"
    and stored: "orders s h = Some order"
    and other: "created_hash r s \<noteq> Some h"
  shows "\<exists>order'. orders (handle r s) h = Some order'
           \<and> (status order' = status order \<or> transition_allowed (status order) (status order'))
           \<and> (status order = completed \<or> status order = cancelled \<longrightarrow> status order' = status order)"
proof (cases r)
  case (CreateSwapOrder e rnd now_ms p)
  from createSwapOrder_cases[of e rnd now_ms p s] show ?thesis
  proof
    assume "createSwapOrder e rnd now_ms p s = (Inl (Failed_to_create Library_error), s)"
    with stored CreateSwapOrder show ?thesis by simp
  next
    assume "\<exists>order. createSwapOrder e rnd now_ms p s
                 = (Inr order, s\<lparr>orders := (orders s)(orderHash order \<mapsto> order)\<rparr>)
        \<and> status order = pending \<and> srcHTLCAddress order = None \<and> dstHTLCAddress order = None
        \<and> srcTxHash order = None \<and> dstTxHash order = None
        \<and> secret order = ''0x'' @ rnd
        \<and> keccak256 e (secret order) = Some (hashLock order)"
    then obtain v where v: "createSwapOrder e rnd now_ms p s
                 = (Inr v, s\<lparr>orders := (orders s)(orderHash v \<mapsto> v)\<rparr>)" by blast
    with other CreateSwapOrder have "orderHash v \<noteq> h" by simp
    with v stored CreateSwapOrder show ?thesis by simp
  qed
next
  case (ExecuteSwap io h' sg)
  from executeSwap_cases[of io h' sg s] show ?thesis
  proof
    assume "\<exists>err. executeSwap io h' sg s = (Inl err, s)"
    with stored ExecuteSwap show ?thesis by auto
  next
    assume "\<exists>order r t1 t2 a1 a2. orders s h' = Some order \<and> status order = pending
        \<and> executeSwap io h' sg s
           = (Inr r, s\<lparr>orders := (orders s)(h' \<mapsto>
                order\<lparr>status := executed, srcTxHash := Some t1, dstTxHash := Some t2,
                      srcHTLCAddress := Some a1, dstHTLCAddress := Some a2\<rparr>)\<rparr>)"
    then obtain v r t1 t2 a1 a2 where v: "orders s h' = Some v" "status v = pending"
      "executeSwap io h' sg s
           = (Inr r, s\<lparr>orders := (orders s)(h' \<mapsto>
                v\<lparr>status := executed, srcTxHash := Some t1, dstTxHash := Some t2,
                      srcHTLCAddress := Some a1, dstHTLCAddress := Some a2\<rparr>)\<rparr>)"
      by blast
    show ?thesis
    proof (cases "h' = h")
      case True
      with v stored ExecuteSwap show ?thesis by (simp add: transition_allowed_def)
    next
      case False
      with v stored ExecuteSwap show ?thesis by simp
    qed
  qed
next
  case (Withdraw e io h' sec cid)
  with stored show ?thesis by (simp add: withdraw_state)
next
  case (Cancel io now_ms h' cid)
  from cancel_cases[of io now_ms h' cid s] show ?thesis
  proof
    assume "\<exists>err. cancel io now_ms h' cid s = (Inl err, s)"
    with stored Cancel show ?thesis by auto
  next
    assume "\<exists>order r. orders s h' = Some order
        \<and> cancel io now_ms h' cid s
           = (Inr r, s\<lparr>orders := (orders s)(h' \<mapsto> order\<lparr>status := cancelled\<rparr>)\<rparr>)"
    then obtain v r where v: "orders s h' = Some v"
      "cancel io now_ms h' cid s
         = (Inr r, s\<lparr>orders := (orders s)(h' \<mapsto> v\<lparr>status := cancelled\<rparr>)\<rparr>)"
      by blast
    show ?thesis
    proof (cases "h' = h")
      case True
      from reachable_ok[OF init stored[unfolded s]] have "status order \<noteq> completed"
        by (simp add: order_ok_def)
      with True v stored Cancel show ?thesis
        by (cases "status order") (simp_all add: transition_allowed_def)
    next
      case False
      with v stored Cancel show ?thesis by simp
    qed
  qed
qed

theorem status_monotonic_witness:
  "orders demo_resolver = Map.empty
   \<and> demo_executed = run [CreateSwapOrder demo_ethers demo_rnd demo_now demo_params,
                          ExecuteSwap demo_io demo_hash ''0xsig''] demo_resolver
   \<and> orders demo_executed demo_hash = Some demo_order_executed
   \<and> created_hash (Cancel demo_io 1700007200000 demo_hash 11155111) demo_executed \<noteq> Some demo_hash
   \<and> status demo_order_executed = executed
   \<and> orders (handle (Cancel demo_io 1700007200000 demo_hash 11155111) demo_executed) demo_hash
       = Some (demo_order_executed\<lparr>status := cancelled\<rparr>)
   \<and> transition_allowed executed cancelled"
proof -
  have h1: "orders demo_resolver = Map.empty" by (rule demo_resolver_fields(1))
  have h3: "orders demo_executed demo_hash = Some demo_order_executed"
    by (simp add: demo_executed_fields)
  have h4: "created_hash (Cancel demo_io 1700007200000 demo_hash 11155111) demo_executed
              \<noteq> Some demo_hash" by simp
  have st: "status demo_order_executed = executed"
    by (simp add: demo_order_executed_def)
  have c: "orders (handle (Cancel demo_io 1700007200000 demo_hash 11155111) demo_executed) demo_hash
       = Some (demo_order_executed\<lparr>status := cancelled\<rparr>)"
    by (simp add: cancel_def demo_executed_fields demo_order_executed_def demo_order_def
        demo_io_def)
  from status_monotonic [OF h1 demo_reach(2) h3 h4] h1 demo_reach(2) h3 h4 st c
  show ?thesis by simp
qed

text \<open>
  Claim C3, as the code has it. \<open>withdraw\<close> never writes the registry: once it has
  succeeded for the source chain and for the destination chain of an order, the order is
  the record it was before, and its status is not \<open>completed\<close> (no call of the resolver
  ever sets that status).
\<close>

theorem withdraw_keeps_status:
  assumes init: "orders s0 = Map.empty" and s: "s = run reqs s0"
    and stored: "orders s h = Some order"
    and w1: "withdraw e1 io1 h sec1 (srcChainId order) s = (Inr t1, s1)"
    and w2: "withdraw e2 io2 h sec2 (dstChainId order) s1 = (Inr t2, s2)"
  shows "orders s2 h = Some order \<and> status order \<noteq> completed"
proof -
  from w1 withdraw_state[of e1 io1 h sec1 "srcChainId order" s] have "s1 = s" by simp
  moreover from w2 withdraw_state[of e2 io2 h sec2 "dstChainId order" s1] have "s2 = s1" by simp
  moreover from reachable_ok[OF init stored[unfolded s]] have "status order \<noteq> completed"
    by (simp add: order_ok_def)
  ultimately show ?thesis using stored by simp
qed

theorem withdraw_keeps_status_witness:
  "orders demo_resolver = Map.empty
   \<and> demo_executed = run [CreateSwapOrder demo_ethers demo_rnd demo_now demo_params,
                          ExecuteSwap demo_io demo_hash ''0xsig''] demo_resolver
   \<and> orders demo_executed demo_hash = Some demo_order_executed
   \<and> withdraw demo_ethers demo_io demo_hash demo_secret (srcChainId demo_order_executed)
        demo_executed = (Inr ''0xa33333333333333333333333333333333333333333'', demo_executed)
   \<and> withdraw demo_ethers demo_io demo_hash demo_secret (dstChainId demo_order_executed)
        demo_executed = (Inr ''0xa34444444444444444444444444444444444444444'', demo_executed)
   \<and> status demo_order_executed \<noteq> completed"
proof -
  have h1: "orders demo_resolver = Map.empty" by (rule demo_resolver_fields(1))
  have h3: "orders demo_executed demo_hash = Some demo_order_executed"
    by (simp add: demo_executed_fields)
  have w1: "withdraw demo_ethers demo_io demo_hash demo_secret (srcChainId demo_order_executed)
        demo_executed = (Inr ''0xa33333333333333333333333333333333333333333'', demo_executed)"
    by (simp add: withdraw_def demo_executed_fields
      demo_order_executed_def demo_order_def demo_secret_def demo_ethers_def demo_io_def)
  have w2: "withdraw demo_ethers demo_io demo_hash demo_secret (dstChainId demo_order_executed)
        demo_executed = (Inr ''0xa34444444444444444444444444444444444444444'', demo_executed)"
    by (simp add: withdraw_def demo_executed_fields
      demo_order_executed_def demo_order_def demo_secret_def demo_ethers_def demo_io_def)
  from withdraw_keeps_status [OF h1 demo_reach(2) h3 w1 w2] h1 demo_reach(2) h3 w1 w2
  show ?thesis by simp
qed

text \<open>
  The claim as the specification words it fails on the scenario of the specification:
  the order is created and executed, both legs are withdrawn with the right secret, and
  the status is still \<open>executed\<close>.
\<close>

theorem withdraw_keeps_status_counterexample:
  "fst (withdraw demo_ethers demo_io demo_hash demo_secret 11155111 demo_executed)
       = Inr ''0xa33333333333333333333333333333333333333333''
   \<and> fst (withdraw demo_ethers demo_io demo_hash demo_secret 80002
          (snd (withdraw demo_ethers demo_io demo_hash demo_secret 11155111 demo_executed)))
       = Inr ''0xa34444444444444444444444444444444444444444''
   \<and> map_option srcChainId (orders demo_executed demo_hash) = Some 11155111
   \<and> map_option dstChainId (orders demo_executed demo_hash) = Some 80002
   \<and> map_option status (orders demo_withdrawn demo_hash) = Some executed
   \<and> map_option status (orders demo_withdrawn demo_hash) \<noteq> Some completed"
  by (simp add: demo_withdrawn_def withdraw_state withdraw_def demo_executed_fields
      demo_order_executed_def demo_order_def demo_secret_def demo_ethers_def demo_io_def)

text \<open>
  Claim C4. The order \<open>createSwapOrder\<close> returns, which is also the order stored
  under its hash, satisfies \<open>keccak256(order.secret) = order.hashLock\<close>.
\<close>

theorem created_secret_hashes_to_hashLock:
  assumes "createSwapOrder e rnd now_ms p s = (Inr order, s')"
  shows "keccak256 e (secret order) = Some (hashLock order)
         \<and> orders s' (orderHash order) = Some order"
  using createSwapOrder_Inr[OF assms] by simp

theorem created_secret_hashes_to_hashLock_witness:
  "createSwapOrder demo_ethers demo_rnd demo_now demo_params demo_resolver
     = (Inr demo_order, demo_created)
   \<and> keccak256 demo_ethers (secret demo_order) = Some (hashLock demo_order)
   \<and> orders demo_created (orderHash demo_order) = Some demo_order"
  using created_secret_hashes_to_hashLock [OF demo_create] demo_create
  by simp

text \<open>
  Claim C6, as the code has it. For a pending order of a reachable state, when step 1
  of \<open>executeSwap\<close> (the source leg) succeeds and step 2 (the destination leg) fails,
  the call throws the error of step 2 and the registry is as it was: the order is still
  pending and its \<open>srcHTLCAddress\<close> and \<open>srcTxHash\<close> are still unset. The order is
  written only after both legs.
\<close>

theorem executeSwap_destination_failure:
  assumes init: "orders s0 = Map.empty" and s: "s = run reqs s0"
    and stored: "orders s h = Some order" and pend: "status order = pending"
    and src: "deploy_source_leg io s h order = Inr leg"
    and dst: "deploy_destination_leg io s h order = Inl err"
  shows "executeSwap io h sg s = (Inl err, s)
         \<and> orders (snd (executeSwap io h sg s)) h = Some order
         \<and> srcHTLCAddress order = None \<and> srcTxHash order = None"
proof -
  have "executeSwap io h sg s = (Inl err, s)"
    using stored pend src dst by (simp add: executeSwap_def split: prod.splits)
  moreover from reachable_ok[OF init stored[unfolded s]] pend
  have "srcHTLCAddress order = None \<and> srcTxHash order = None"
    by (simp add: order_ok_def)
  ultimately show ?thesis using stored by simp
qed

theorem executeSwap_destination_failure_witness:
  "orders demo_resolver = Map.empty
   \<and> demo_created = run [CreateSwapOrder demo_ethers demo_rnd demo_now demo_params] demo_resolver
   \<and> orders demo_created demo_hash = Some demo_order
   \<and> status demo_order = pending
   \<and> deploy_source_leg demo_io_dst_fails demo_created demo_hash demo_order
       = Inr (''0xa1'', ''0x3333333333333333333333333333333333333333'')
   \<and> deploy_destination_leg demo_io_dst_fails demo_created demo_hash demo_order
       = Inl Chain_error
   \<and> executeSwap demo_io_dst_fails demo_hash ''0xsig'' demo_created
       = (Inl Chain_error, demo_created)
   \<and> orders (snd (executeSwap demo_io_dst_fails demo_hash ''0xsig'' demo_created)) demo_hash
       = Some demo_order
   \<and> srcHTLCAddress demo_order = None \<and> srcTxHash demo_order = None"
proof -
  have h1: "orders demo_resolver = Map.empty" by (rule demo_resolver_fields(1))
  have h3: "orders demo_created demo_hash = Some demo_order"
    by (simp add: demo_created_fields)
  have h4: "status demo_order = pending" by (simp add: demo_order_def)
  from executeSwap_destination_failure [OF h1 demo_reach(1) h3 h4 demo_legs, of "''0xsig''"]
    h1 demo_reach(1) h3 h4 demo_legs
  show ?thesis by simp
qed

text \<open>
  The source escrow is deployed and its address read back, the destination deployment
  reverts: the stored order has no \<open>srcHTLCAddress\<close>.
\<close>

theorem executeSwap_destination_failure_counterexample:
  "orders demo_created demo_hash = Some demo_order
   \<and> deploy_source_leg demo_io_dst_fails demo_created demo_hash demo_order
       = Inr (''0xa1'', ''0x3333333333333333333333333333333333333333'')
   \<and> deploy_destination_leg demo_io_dst_fails demo_created demo_hash demo_order
       = Inl Chain_error
   \<and> fst (executeSwap demo_io_dst_fails demo_hash ''0xsig'' demo_created) = Inl Chain_error
   \<and> map_option srcHTLCAddress
        (orders (snd (executeSwap demo_io_dst_fails demo_hash ''0xsig'' demo_created)) demo_hash)
       = Some None
   \<and> map_option status
        (orders (snd (executeSwap demo_io_dst_fails demo_hash ''0xsig'' demo_created)) demo_hash)
       = Some pending"
proof -
  have "executeSwap demo_io_dst_fails demo_hash ''0xsig'' demo_created
          = (Inl Chain_error, demo_created)"
    by (simp add: executeSwap_def demo_created_fields demo_legs) (simp add: demo_order_def)
  then show ?thesis
    by (simp add: demo_legs demo_created_fields) (simp add: demo_order_def)
qed

text \<open>
  Claim C7, as the code has it. For a stored order, whatever its status, and for every
  chain id: a secret on which \<open>keccak256\<close> returns a hash other than the order's hash
  lock makes \<open>withdraw\<close> throw \<open>Invalid secret\<close>; a secret on which \<open>keccak256\<close>
  itself throws (a string that is not hex data) makes \<open>withdraw\<close> throw that error of
  the library, the test standing outside the \<open>try\<close>; and a secret whose hash is the
  hash lock passes the test, whether or not it is the string \<open>order.secret\<close>. Nothing
  is written in any of the three cases.
\<close>

theorem withdraw_wrong_secret_rejected:
  assumes stored: "orders s h = Some order"
  shows "(keccak256 e sec = Some d \<and> d \<noteq> hashLock order
           \<longrightarrow> withdraw e io h sec cid s = (Inl Invalid_secret, s))
       \<and> (keccak256 e sec0 = None
           \<longrightarrow> withdraw e io h sec0 cid s = (Inl Library_error, s))
       \<and> (keccak256 e sec1 = Some (hashLock order)
           \<longrightarrow> fst (withdraw e io h sec1 cid s) \<noteq> Inl Invalid_secret
               \<and> snd (withdraw e io h sec1 cid s) = s)"
  using stored by (simp add: withdraw_def Let_def withdraw_state split: option.splits)

theorem withdraw_wrong_secret_rejected_witness:
  "orders demo_executed demo_hash = Some demo_order_executed
   \<and> keccak256 demo_ethers (''0x'' @ demo_rnd2) = Some (''0xH'' @ demo_rnd2)
   \<and> ''0xH'' @ demo_rnd2 \<noteq> hashLock demo_order_executed
   \<and> withdraw demo_ethers demo_io demo_hash (''0x'' @ demo_rnd2) 80002 demo_executed
       = (Inl Invalid_secret, demo_executed)
   \<and> keccak256 demo_ethers ''not-hex'' = None
   \<and> withdraw demo_ethers demo_io demo_hash ''not-hex'' 80002 demo_executed
       = (Inl Library_error, demo_executed)
   \<and> keccak256 demo_ethers demo_secret = Some (hashLock demo_order_executed)
   \<and> fst (withdraw demo_ethers demo_io demo_hash demo_secret 80002 demo_executed)
       \<noteq> Inl Invalid_secret"
proof -
  have h1: "orders demo_executed demo_hash = Some demo_order_executed"
    by (simp add: demo_executed_fields)
  have h2: "keccak256 demo_ethers (''0x'' @ demo_rnd2) = Some (''0xH'' @ demo_rnd2)"
    by (simp add: demo_ethers_def)
  have h3: "''0xH'' @ demo_rnd2 \<noteq> hashLock demo_order_executed"
    by (simp add: demo_lib demo_rnd2_def)
  have h4: "keccak256 demo_ethers ''not-hex'' = None"
    by (simp add: demo_ethers_def)
  have h5: "keccak256 demo_ethers demo_secret = Some (hashLock demo_order_executed)"
    by (simp add: demo_lib demo_secret_def)
  from withdraw_wrong_secret_rejected [OF h1, where e = demo_ethers
      and sec = "''0x'' @ demo_rnd2" and d = "''0xH'' @ demo_rnd2" and ?sec0.0 = "''not-hex''"
      and ?sec1.0 = demo_secret and io = demo_io and cid = 80002]
    h1 h2 h3 h4 h5
  show ?thesis by blast
qed

text \<open>
  The string \<open>not-hex\<close> is not the secret of the executed order and has no hash: the
  call is refused, and the error is not \<open>Invalid secret\<close>.
\<close>

theorem withdraw_wrong_secret_counterexample:
  "orders demo_executed demo_hash = Some demo_order_executed
   \<and> ''not-hex'' \<noteq> secret demo_order_executed
   \<and> keccak256 demo_ethers ''not-hex'' \<noteq> Some (hashLock demo_order_executed)
   \<and> fst (withdraw demo_ethers demo_io demo_hash ''not-hex'' 80002 demo_executed)
       = Inl Library_error
   \<and> fst (withdraw demo_ethers demo_io demo_hash ''not-hex'' 80002 demo_executed)
       \<noteq> Inl Invalid_secret"
  by (simp add: withdraw_def demo_executed_fields demo_order_executed_def demo_order_def
      demo_ethers_def demo_rnd_def)

text \<open>
  Claim C9, as the code has it. \<open>createSwapOrder\<close> throws
  \<open>Failed to create swap order\<close>, and leaves the registry as it was, when
  \<open>getAddress\<close> refuses the maker, the source token or the destination token, and when
  the ABI coder refuses the values; the handler of \<open>POST /swap/create\<close> answers 400,
  and creates nothing, when an amount is missing or empty. No amount is compared with zero.
\<close>

theorem create_rejects_invalid:
  "(getAddress e (maker p) = None \<or> getAddress e (srcToken p) = None
      \<or> getAddress e (dstToken p) = None
     \<longrightarrow> createSwapOrder e rnd now_ms p s = (Inl (Failed_to_create Library_error), s))
   \<and> (keccak256 e (''0x'' @ rnd) = Some hl \<and> getAddress e (maker p') = Some m
      \<and> getAddress e (srcToken p') = Some st \<and> getAddress e (dstToken p') = Some dt
      \<and> abiEncode e (m, srcChainId p', dstChainId p', st, dt, srcAmount p', dstAmount p', hl,
                     timelock p') = None
     \<longrightarrow> createSwapOrder e rnd now_ms p' s = (Inl (Failed_to_create Library_error), s))
   \<and> (\<not> truthy (body_srcAmount b) \<or> \<not> truthy (body_dstAmount b)
     \<longrightarrow> post_swap_create e rnd now_ms b s = (Status_400 ''Missing required fields'', s))"
  by (auto simp: createSwapOrder_def post_swap_create_def Let_def split: option.splits)

theorem create_rejects_invalid_witness:
  "getAddress demo_ethers (srcToken (demo_params\<lparr>srcToken := ''ROSE''\<rparr>)) = None
   \<and> createSwapOrder demo_ethers demo_rnd demo_now (demo_params\<lparr>srcToken := ''ROSE''\<rparr>)
        demo_resolver = (Inl (Failed_to_create Library_error), demo_resolver)
   \<and> abiEncode demo_ethers
        (maker demo_params, 11155111, 80002, srcToken demo_params, dstToken demo_params,
         ''100000000000000000000'', ''-5'', ''0xH'' @ demo_rnd, 1700007200) = None
   \<and> createSwapOrder demo_ethers demo_rnd demo_now (demo_params\<lparr>dstAmount := ''-5''\<rparr>)
        demo_resolver = (Inl (Failed_to_create Library_error), demo_resolver)
   \<and> \<not> truthy (body_srcAmount (demo_body_zero\<lparr>body_srcAmount := Some []\<rparr>))
   \<and> post_swap_create demo_ethers demo_rnd demo_now (demo_body_zero\<lparr>body_srcAmount := Some []\<rparr>)
        demo_resolver = (Status_400 ''Missing required fields'', demo_resolver)"
  using create_rejects_invalid [where e = demo_ethers and rnd = demo_rnd and now_ms = demo_now
      and s = demo_resolver and p = "demo_params\<lparr>srcToken := ''ROSE''\<rparr>"
      and p' = "demo_params\<lparr>dstAmount := ''-5''\<rparr>" and hl = "''0xH'' @ demo_rnd"
      and m = "maker demo_params" and st = "srcToken demo_params" and dt = "dstToken demo_params"
      and b = "demo_body_zero\<lparr>body_srcAmount := Some []\<rparr>"]
  by (simp add: demo_ethers_def demo_params_def demo_rnd_def is_uint_def)

text \<open>
  An amount of \<open>"0"\<close> is not positive, and the order is created and stored, through
  \<open>createSwapOrder\<close> and through the handler.
\<close>

theorem create_rejects_invalid_counterexample:
  "\<not> isl (fst (createSwapOrder demo_ethers demo_rnd demo_now (demo_params\<lparr>srcAmount := ''0''\<rparr>)
              demo_resolver))
   \<and> dom (orders demo_resolver) = {}
   \<and> dom (orders (snd (createSwapOrder demo_ethers demo_rnd demo_now
                         (demo_params\<lparr>srcAmount := ''0''\<rparr>) demo_resolver))) \<noteq> {}
   \<and> (case fst (post_swap_create demo_ethers demo_rnd demo_now demo_body_zero demo_resolver) of
         Json_order order \<Rightarrow> srcAmount order = ''0'' \<and> status order = pending
       | Status_400 msg \<Rightarrow> False
       | Status_500 msg \<Rightarrow> False)
   \<and> dom (orders (snd (post_swap_create demo_ethers demo_rnd demo_now demo_body_zero
                         demo_resolver))) \<noteq> {}"
  by (simp add: post_swap_create_def demo_body_zero_def createSwapOrder_def Let_def demo_lib
      demo_resolver_fields)

text \<open>
  Claim C10, as the code has it. For a stored order, a valid secret (for \<open>withdraw\<close>)
  and an expired timelock (for \<open>cancel\<close>): a chain id for which no provider and wallet
  are configured is refused with \<open>No provider/wallet configured\<close>; a configured chain id
  other than \<open>order.srcChainId\<close>, whether it is \<open>order.dstChainId\<close> or not, sends the
  call to \<open>order.dstHTLCAddress\<close>, and the source chain id sends it to
  \<open>order.srcHTLCAddress\<close>; at that step the call fails only when the address is unset.
\<close>

theorem leg_selection:
  assumes stored: "orders s h = Some order"
  shows "(keccak256 e sec = Some (hashLock order)
          \<and> \<not> (cid0 \<in> providers s \<and> cid0 \<in> resolverWallet s)
         \<longrightarrow> fst (withdraw e io h sec cid0 s) = Inl (Failed_to_withdraw (No_provider_wallet cid0)))
     \<and> (\<not> now_ms < 1000 * timelock order
          \<and> \<not> (cid0 \<in> providers s \<and> cid0 \<in> resolverWallet s)
         \<longrightarrow> fst (cancel io now_ms h cid0 s) = Inl (Failed_to_cancel (No_provider_wallet cid0)))
     \<and> (keccak256 e sec = Some (hashLock order)
          \<and> cid \<in> providers s \<and> cid \<in> resolverWallet s \<and> cid \<noteq> srcChainId order
         \<longrightarrow> fst (withdraw e io h sec cid s)
             = (if truthy (dstHTLCAddress order)
                then (case tx_withdraw io cid (the (dstHTLCAddress order)) sec of
                        None \<Rightarrow> Inl (Failed_to_withdraw Chain_error)
                      | Some receipt \<Rightarrow> Inr receipt)
                else Inl (Failed_to_withdraw (No_HTLC_address cid))))
     \<and> (\<not> now_ms < 1000 * timelock order
          \<and> cid \<in> providers s \<and> cid \<in> resolverWallet s \<and> cid \<noteq> srcChainId order
         \<longrightarrow> fst (cancel io now_ms h cid s)
             = (if truthy (dstHTLCAddress order)
                then (case tx_cancel io cid (the (dstHTLCAddress order)) of
                        None \<Rightarrow> Inl (Failed_to_cancel Chain_error)
                      | Some receipt \<Rightarrow> Inr receipt)
                else Inl (Failed_to_cancel (No_HTLC_address cid))))
     \<and> (keccak256 e sec = Some (hashLock order)
          \<and> srcChainId order \<in> providers s \<and> srcChainId order \<in> resolverWallet s
         \<longrightarrow> fst (withdraw e io h sec (srcChainId order) s)
             = (if truthy (srcHTLCAddress order)
                then (case tx_withdraw io (srcChainId order) (the (srcHTLCAddress order)) sec of
                        None \<Rightarrow> Inl (Failed_to_withdraw Chain_error)
                      | Some receipt \<Rightarrow> Inr receipt)
                else Inl (Failed_to_withdraw (No_HTLC_address (srcChainId order)))))
     \<and> (\<not> now_ms < 1000 * timelock order
          \<and> srcChainId order \<in> providers s \<and> srcChainId order \<in> resolverWallet s
         \<longrightarrow> fst (cancel io now_ms h (srcChainId order) s)
             = (if truthy (srcHTLCAddress order)
                then (case tx_cancel io (srcChainId order) (the (srcHTLCAddress order)) of
                        None \<Rightarrow> Inl (Failed_to_cancel Chain_error)
                      | Some receipt \<Rightarrow> Inr receipt)
                else Inl (Failed_to_cancel (No_HTLC_address (srcChainId order)))))"
  using stored
  by (simp add: withdraw_def cancel_def Let_def split: option.splits)

theorem leg_selection_witness:
  "orders demo_executed demo_hash = Some demo_order_executed
   \<and> keccak256 demo_ethers demo_secret = Some (hashLock demo_order_executed)
   \<and> \<not> (1700007200000 < 1000 * timelock demo_order_executed)
   \<and> \<not> ((5::int) \<in> providers demo_executed \<and> (5::int) \<in> resolverWallet demo_executed)
   \<and> (80002::int) \<in> providers demo_executed \<and> (80002::int) \<in> resolverWallet demo_executed
   \<and> (80002::int) \<noteq> srcChainId demo_order_executed
   \<and> srcChainId demo_order_executed \<in> providers demo_executed
   \<and> srcChainId demo_order_executed \<in> resolverWallet demo_executed
   \<and> fst (withdraw demo_ethers demo_io demo_hash demo_secret 5 demo_executed)
       = Inl (Failed_to_withdraw (No_provider_wallet 5))
   \<and> fst (cancel demo_io 1700007200000 demo_hash 5 demo_executed)
       = Inl (Failed_to_cancel (No_provider_wallet 5))
   \<and> fst (withdraw demo_ethers demo_io demo_hash demo_secret 80002 demo_executed)
       = Inr ''0xa34444444444444444444444444444444444444444''
   \<and> fst (cancel demo_io 1700007200000 demo_hash 80002 demo_executed)
       = Inr ''0xa44444444444444444444444444444444444444444''
   \<and> fst (withdraw demo_ethers demo_io demo_hash demo_secret 11155111 demo_executed)
       = Inr ''0xa33333333333333333333333333333333333333333''
   \<and> fst (cancel demo_io 1700007200000 demo_hash 11155111 demo_executed)
       = Inr ''0xa43333333333333333333333333333333333333333''
   \<and> orders demo_same demo_same_hash = Some demo_same_order
   \<and> (80002::int) \<noteq> srcChainId demo_same_order \<and> (80002::int) \<noteq> dstChainId demo_same_order
   \<and> fst (withdraw demo_ethers demo_io demo_same_hash demo_secret 80002 demo_same)
       = Inr ''0xa34444444444444444444444444444444444444444''
   \<and> fst (cancel demo_io 1700007200000 demo_same_hash 80002 demo_same)
       = Inr ''0xa44444444444444444444444444444444444444444''"
proof -
  have h1: "orders demo_executed demo_hash = Some demo_order_executed"
    by (simp add: demo_executed_fields)
  have h2: "orders demo_same demo_same_hash = Some demo_same_order"
    by (simp add: demo_same_fields)
  from leg_selection [OF h1, where e = demo_ethers and sec = demo_secret and io = demo_io
      and ?cid0.0 = 5 and cid = 80002 and now_ms = 1700007200000]
    leg_selection [OF h2, where e = demo_ethers and sec = demo_secret and io = demo_io
      and ?cid0.0 = 5 and cid = 80002 and now_ms = 1700007200000]
    h1 h2
  show ?thesis
    by (simp add: demo_executed_fields demo_same_fields demo_same_order_def
        demo_order_executed_def demo_order_def demo_secret_def demo_ethers_def demo_io_def)
qed

text \<open>
  Chain id 5 belongs to neither chain of the executed order, the destination escrow's
  address is set, and both calls are refused: no provider is configured for it.
\<close>

theorem leg_selection_counterexample:
  "orders demo_executed demo_hash = Some demo_order_executed
   \<and> (5::int) \<noteq> srcChainId demo_order_executed \<and> (5::int) \<noteq> dstChainId demo_order_executed
   \<and> dstHTLCAddress demo_order_executed = Some ''0x4444444444444444444444444444444444444444''
   \<and> keccak256 demo_ethers demo_secret = Some (hashLock demo_order_executed)
   \<and> fst (withdraw demo_ethers demo_io demo_hash demo_secret 5 demo_executed)
       = Inl (Failed_to_withdraw (No_provider_wallet 5))
   \<and> \<not> (1700007200000 < 1000 * timelock demo_order_executed)
   \<and> fst (cancel demo_io 1700007200000 demo_hash 5 demo_executed)
       = Inl (Failed_to_cancel (No_provider_wallet 5))"
  by (simp add: withdraw_def cancel_def demo_executed_fields demo_order_executed_def
      demo_order_def demo_secret_def demo_ethers_def)

end
